theory Spec2Isabelle
  imports Complex_Main
begin

section \<open>Python numbers and SymPy expressions\<close>

text \<open>
  The package \<open>symgas\<close> builds four closed-form relations of quasi-1D isentropic nozzle
  flow as SymPy expressions (\<open>symbolic_nozzle.py\<close>) and compiles them to numeric functions
  (\<open>numerics.py\<close>). The embedding keeps the two layers apart:
  \<^item> Python arithmetic between two plain numbers is eager, and true division by zero raises
    \<open>ZeroDivisionError\<close>;
  \<^item> arithmetic that involves a SymPy object builds an expression tree and never raises;
    a division by zero inside a tree only shows when the tree is evaluated, as an undefined
    value (SymPy's \<open>zoo\<close>/\<open>nan\<close>, NumPy's \<open>inf\<close>/\<open>nan\<close>).
  Numbers are exact reals: the rounding of binary floating point is not modelled.
\<close>

datatype py_error = ZeroDivisionError | KeyError | TypeError | NameError | AttributeError

text \<open>\<open>sp.symbols(name, positive=True)\<close>: a symbol is its name and its positivity assumption.\<close>

datatype symbol = Symbol string bool

fun positive :: "symbol \<Rightarrow> bool" where
  "positive (Symbol name pos) = pos"

definition gamma :: symbol where
  "gamma = Symbol ''gamma'' True"

definition mach :: symbol where
  "mach = Symbol ''M'' True"

datatype expr =
    Number real
  | Sym symbol
  | Add expr expr
  | Sub expr expr
  | Mul expr expr
  | Div expr expr
  | Power expr expr

text \<open>A value of the annotation \<open>sp.Symbol | float\<close>: a plain Python number or a SymPy object.\<close>

datatype py_value = PyNum real | SymPy expr

fun sympify :: "py_value \<Rightarrow> expr" where
  "sympify (PyNum x) = Number x"
| "sympify (SymPy e) = e"

fun py_add :: "py_value \<Rightarrow> py_value \<Rightarrow> py_value" where
  "py_add (PyNum x) (PyNum y) = PyNum (x + y)"
| "py_add a b = SymPy (Add (sympify a) (sympify b))"

fun py_sub :: "py_value \<Rightarrow> py_value \<Rightarrow> py_value" where
  "py_sub (PyNum x) (PyNum y) = PyNum (x - y)"
| "py_sub a b = SymPy (Sub (sympify a) (sympify b))"

fun py_mul :: "py_value \<Rightarrow> py_value \<Rightarrow> py_value" where
  "py_mul (PyNum x) (PyNum y) = PyNum (x * y)"
| "py_mul a b = SymPy (Mul (sympify a) (sympify b))"

text \<open>True division of two plain numbers raises on a zero divisor.\<close>

definition float_truediv :: "real \<Rightarrow> real \<Rightarrow> py_error + real" where
  "float_truediv x y = (if y = 0 then Inl ZeroDivisionError else Inr (x / y))"

fun py_truediv :: "py_value \<Rightarrow> py_value \<Rightarrow> py_error + py_value" where
  "py_truediv (PyNum x) (PyNum y) =
     (if y = 0 then Inl ZeroDivisionError else Inr (PyNum (x / y)))"
| "py_truediv a b = Inr (SymPy (Div (sympify a) (sympify b)))"

text \<open>\<open>Expr.__pow__\<close>: the base is a SymPy expression at every use in the source.\<close>

definition sympy_pow :: "expr \<Rightarrow> py_value \<Rightarrow> expr" where
  "sympy_pow b x = Power b (sympify x)"

text \<open>Sequencing of statements that may raise.\<close>

fun and_then :: "py_error + 'a \<Rightarrow> ('a \<Rightarrow> py_error + 'b) \<Rightarrow> py_error + 'b" where
  "and_then (Inl e) f = Inl e"
| "and_then (Inr x) f = f x"

subsection \<open>The value of an expression\<close>

text \<open>
  Real arithmetic with the undefined results written out. \<open>None\<close> stands for every
  outcome that is not a finite real number: a division by zero, zero to a negative power,
  a negative base with a fractional exponent, an unbound symbol.
\<close>

definition rdiv :: "real \<Rightarrow> real \<Rightarrow> real option" where
  "rdiv a b = (if b = 0 then None else Some (a / b))"

definition is_int :: "real \<Rightarrow> bool" where
  "is_int x \<longleftrightarrow> x = of_int \<lfloor>x\<rfloor>"

definition rpow :: "real \<Rightarrow> real \<Rightarrow> real option" where
  "rpow a b =
     (if 0 < a then Some (a powr b)
      else if a = 0 then (if 0 < b then Some 0 else if b = 0 then Some 1 else None)
      else if is_int b then Some (a powi \<lfloor>b\<rfloor>) else None)"

definition lift2 :: "(real \<Rightarrow> real \<Rightarrow> real option) \<Rightarrow> real option \<Rightarrow> real option \<Rightarrow> real option" where
  "lift2 f a b = (case a of None \<Rightarrow> None | Some x \<Rightarrow> (case b of None \<Rightarrow> None | Some y \<Rightarrow> f x y))"

fun eval :: "(symbol \<rightharpoonup> real) \<Rightarrow> expr \<Rightarrow> real option" where
  "eval env (Number x) = Some x"
| "eval env (Sym s) = env s"
| "eval env (Add a b) = lift2 (\<lambda>x y. Some (x + y)) (eval env a) (eval env b)"
| "eval env (Sub a b) = lift2 (\<lambda>x y. Some (x - y)) (eval env a) (eval env b)"
| "eval env (Mul a b) = lift2 (\<lambda>x y. Some (x * y)) (eval env a) (eval env b)"
| "eval env (Div a b) = lift2 rdiv (eval env a) (eval env b)"
| "eval env (Power a b) = lift2 rpow (eval env a) (eval env b)"

text \<open>\<open>e.subs({s: v})\<close> with a number \<open>v\<close>.\<close>

fun subs :: "expr \<Rightarrow> symbol \<Rightarrow> real \<Rightarrow> expr" where
  "subs (Number x) s v = Number x"
| "subs (Sym t) s v = (if t = s then Number v else Sym t)"
| "subs (Add a b) s v = Add (subs a s v) (subs b s v)"
| "subs (Sub a b) s v = Sub (subs a s v) (subs b s v)"
| "subs (Mul a b) s v = Mul (subs a s v) (subs b s v)"
| "subs (Div a b) s v = Div (subs a s v) (subs b s v)"
| "subs (Power a b) s v = Power (subs a s v) (subs b s v)"

fun free_symbols :: "expr \<Rightarrow> symbol set" where
  "free_symbols (Number x) = {}"
| "free_symbols (Sym s) = {s}"
| "free_symbols (Add a b) = free_symbols a \<union> free_symbols b"
| "free_symbols (Sub a b) = free_symbols a \<union> free_symbols b"
| "free_symbols (Mul a b) = free_symbols a \<union> free_symbols b"
| "free_symbols (Div a b) = free_symbols a \<union> free_symbols b"
| "free_symbols (Power a b) = free_symbols a \<union> free_symbols b"

text \<open>
  \<open>lambdify(sym, e, modules="numpy")\<close>: the compiled function of one argument; applied to an
  array it works element by element.
\<close>

definition lambdify :: "symbol \<Rightarrow> expr \<Rightarrow> real \<Rightarrow> real option" where
  "lambdify s e = (\<lambda>x. eval [s \<mapsto> x] e)"

subsection \<open>The contract of \<open>sp.simplify\<close>\<close>

text \<open>
  \<open>sp.simplify\<close> belongs to SymPy, not to this package; it is a parameter \<open>simplify\<close> of
  every definition that calls it. What SymPy promises is that the simplified expression has
  the value of the original wherever the assumptions of the symbols hold; here both symbols
  are declared \<open>positive=True\<close>.
\<close>

definition admissible :: "(symbol \<rightharpoonup> real) \<Rightarrow> bool" where
  "admissible env \<longleftrightarrow> (\<forall>s v. env s = Some v \<and> positive s \<longrightarrow> 0 < v)"

definition sound_simplify :: "(expr \<Rightarrow> expr) \<Rightarrow> bool" where
  "sound_simplify simplify \<longleftrightarrow> (\<forall>e env. admissible env \<longrightarrow> eval env (simplify e) = eval env e)"

text \<open>The same promise at one given Mach number, whatever its sign.\<close>

definition exact_at :: "(expr \<Rightarrow> expr) \<Rightarrow> real \<Rightarrow> bool" where
  "exact_at simplify M \<longleftrightarrow> (\<forall>e. eval [mach \<mapsto> M] (simplify e) = eval [mach \<mapsto> M] e)"

section \<open>\<open>symbolic_nozzle.py\<close>\<close>

definition temperature_ratio_isentropic :: "py_value \<Rightarrow> py_error + expr" where
  "temperature_ratio_isentropic g =
     (let M = SymPy (Sym mach) in
      and_then (py_truediv (py_sub g (PyNum 1)) (PyNum 2)) (\<lambda>half.
      and_then (py_truediv (PyNum 1)
                  (py_add (PyNum 1) (py_mul half (SymPy (sympy_pow (sympify M) (PyNum 2)))))) (\<lambda>r.
      Inr (sympify r))))"

definition pressure_ratio_isentropic :: "py_value \<Rightarrow> py_error + expr" where
  "pressure_ratio_isentropic g =
     and_then (temperature_ratio_isentropic g) (\<lambda>T_T0.
     and_then (py_truediv g (py_sub g (PyNum 1))) (\<lambda>ex.
     Inr (sympy_pow T_T0 ex)))"

definition density_ratio_isentropic :: "py_value \<Rightarrow> py_error + expr" where
  "density_ratio_isentropic g =
     and_then (temperature_ratio_isentropic g) (\<lambda>T_T0.
     and_then (py_truediv (PyNum 1) (py_sub g (PyNum 1))) (\<lambda>ex.
     Inr (sympy_pow T_T0 ex)))"

definition area_mach_relation :: "py_value \<Rightarrow> py_error + expr" where
  "area_mach_relation g =
     (let M = SymPy (Sym mach) in
      and_then (py_truediv (PyNum 2) (py_add g (PyNum 1))) (\<lambda>c.
      and_then (py_truediv (py_sub g (PyNum 1)) (PyNum 2)) (\<lambda>half.
      let term = py_mul c (py_add (PyNum 1) (py_mul half (SymPy (sympy_pow (sympify M) (PyNum 2))))) in
      and_then (py_truediv (py_add g (PyNum 1)) (py_mul (PyNum 2) (py_sub g (PyNum 1)))) (\<lambda>exponent.
      and_then (py_truediv (PyNum 1) M) (\<lambda>inv.
      Inr (sympify (py_mul inv (SymPy (sympy_pow (sympify term) exponent)))))))))"

text \<open>
  \<open>expressions_for_gamma\<close>: each formula is built with the symbol \<open>gamma\<close>, the number is
  substituted, the result simplified. The dictionary is the list of its items, in order.
\<close>

definition expressions_for_gamma :: "(expr \<Rightarrow> expr) \<Rightarrow> real \<Rightarrow> py_error + (string \<times> expr) list" where
  "expressions_for_gamma simplify g_value =
     and_then (temperature_ratio_isentropic (SymPy (Sym gamma))) (\<lambda>t.
     and_then (pressure_ratio_isentropic (SymPy (Sym gamma))) (\<lambda>p.
     and_then (density_ratio_isentropic (SymPy (Sym gamma))) (\<lambda>r.
     and_then (area_mach_relation (SymPy (Sym gamma))) (\<lambda>a.
     Inr [(''T_T0'', simplify (subs t gamma g_value)),
          (''p_p0'', simplify (subs p gamma g_value)),
          (''rho_rho0'', simplify (subs r gamma g_value)),
          (''A_Astar'', simplify (subs a gamma g_value))]))))"

definition getitem :: "(string \<times> 'a) list \<Rightarrow> string \<Rightarrow> py_error + 'a" where
  "getitem d k = (case map_of d k of None \<Rightarrow> Inl KeyError | Some v \<Rightarrow> Inr v)"

section \<open>\<open>numerics.py\<close>\<close>

subsection \<open>Calling a compiled function\<close>

text \<open>
  \<open>lambdify\<close> returns a Python function whose body is the expression, printed. The function
  is kept as that expression; what a call does depends on the argument.
  \<^item> On an \<open>ndarray\<close> NumPy works element by element and does not raise: an element with no
    finite value is \<open>inf\<close> or \<open>nan\<close>, here \<open>None\<close> (\<open>lambdify\<close> above).
  \<^item> On a plain Python number the body runs in Python's own float arithmetic: a division by
    zero and zero to a negative power raise \<open>ZeroDivisionError\<close>; a negative base with a
    fractional exponent gives a complex number, which \<open>np.asarray(..., dtype=float)\<close> refuses
    with \<open>TypeError\<close>.
  A subexpression without symbols was evaluated by SymPy when the expression was built; where
  it has no value the expression holds \<open>nan\<close>, and the function returns \<open>nan\<close> without an
  exception.
\<close>

datatype array_like = PyScalar real | NDArray "real option list"

definition float_pow :: "real \<Rightarrow> real \<Rightarrow> py_error + real" where
  "float_pow x y =
     (if 0 < x then Inr (x powr y)
      else if x = 0 then (if 0 < y then Inr 0 else if y = 0 then Inr 1 else Inl ZeroDivisionError)
      else if is_int y then Inr (x powi \<lfloor>y\<rfloor>) else Inl TypeError)"

fun python_float :: "real \<Rightarrow> expr \<Rightarrow> py_error + real" where
  "python_float M (Number x) = Inr x"
| "python_float M (Sym s) = (if s = mach then Inr M else Inl NameError)"
| "python_float M (Add a b) =
     and_then (python_float M a) (\<lambda>x. and_then (python_float M b) (\<lambda>y. Inr (x + y)))"
| "python_float M (Sub a b) =
     and_then (python_float M a) (\<lambda>x. and_then (python_float M b) (\<lambda>y. Inr (x - y)))"
| "python_float M (Mul a b) =
     and_then (python_float M a) (\<lambda>x. and_then (python_float M b) (\<lambda>y. Inr (x * y)))"
| "python_float M (Div a b) =
     and_then (python_float M a) (\<lambda>x. and_then (python_float M b) (\<lambda>y. float_truediv x y))"
| "python_float M (Power a b) =
     and_then (python_float M a) (\<lambda>x. and_then (python_float M b) (\<lambda>y. float_pow x y))"

fun nan_constant :: "expr \<Rightarrow> bool" where
  "nan_constant (Number x) = False"
| "nan_constant (Sym s) = False"
| "nan_constant (Add a b) =
     (nan_constant a \<or> nan_constant b \<or>
      (free_symbols (Add a b) = {} \<and> eval Map.empty (Add a b) = None))"
| "nan_constant (Sub a b) =
     (nan_constant a \<or> nan_constant b \<or>
      (free_symbols (Sub a b) = {} \<and> eval Map.empty (Sub a b) = None))"
| "nan_constant (Mul a b) =
     (nan_constant a \<or> nan_constant b \<or>
      (free_symbols (Mul a b) = {} \<and> eval Map.empty (Mul a b) = None))"
| "nan_constant (Div a b) =
     (nan_constant a \<or> nan_constant b \<or>
      (free_symbols (Div a b) = {} \<and> eval Map.empty (Div a b) = None))"
| "nan_constant (Power a b) =
     (nan_constant a \<or> nan_constant b \<or>
      (free_symbols (Power a b) = {} \<and> eval Map.empty (Power a b) = None))"

definition call_scalar :: "expr \<Rightarrow> real \<Rightarrow> py_error + real option" where
  "call_scalar e x =
     (if nan_constant e then Inr None
      else and_then (python_float x e) (\<lambda>v. Inr (Some v)))"

text \<open>
  \<open>np.asarray(f(M), dtype=float)\<close> for a compiled \<open>f\<close>: an array is the list of its elements,
  the zero-dimensional array of a scalar result the one-element list.
\<close>

definition call_compiled :: "expr \<Rightarrow> array_like \<Rightarrow> py_error + real option list" where
  "call_compiled e M =
     (case M of
        PyScalar x \<Rightarrow> and_then (call_scalar e x) (\<lambda>v. Inr [v])
      | NDArray xs \<Rightarrow> Inr (map (\<lambda>m. Option.bind m (lambdify mach e)) xs))"

subsection \<open>The evaluator\<close>

text \<open>
  The dataclass \<open>IsentropicNozzleNumeric\<close>: the field \<open>gamma_value\<close> and the four private
  attributes \<open>_T_T0\<close>, \<open>_p_p0\<close>, \<open>_rho_rho0\<close>, \<open>_A_Astar\<close> that \<open>__post_init__\<close> sets, each
  a compiled function.
\<close>

record IsentropicNozzleNumeric =
  gamma_value :: real
  T_T0_code :: expr
  p_p0_code :: expr
  rho_rho0_code :: expr
  A_Astar_code :: expr

text \<open>Construction: the generated \<open>__init__\<close> stores \<open>gamma_value\<close> and runs \<open>__post_init__\<close>.\<close>

definition post_init :: "(expr \<Rightarrow> expr) \<Rightarrow> real \<Rightarrow> py_error + IsentropicNozzleNumeric" where
  "post_init simplify g =
     and_then (expressions_for_gamma simplify g) (\<lambda>exprs.
     and_then (getitem exprs ''T_T0'') (\<lambda>t.
     and_then (getitem exprs ''p_p0'') (\<lambda>p.
     and_then (getitem exprs ''rho_rho0'') (\<lambda>r.
     and_then (getitem exprs ''A_Astar'') (\<lambda>a.
     Inr \<lparr>gamma_value = g,
          T_T0_code = t,
          p_p0_code = p,
          rho_rho0_code = r,
          A_Astar_code = a\<rparr>)))))"

text \<open>The four compiled functions on one element of an \<open>ndarray\<close>.\<close>

definition T_T0_fn :: "IsentropicNozzleNumeric \<Rightarrow> real \<Rightarrow> real option" where
  "T_T0_fn self = lambdify mach (T_T0_code self)"

definition p_p0_fn :: "IsentropicNozzleNumeric \<Rightarrow> real \<Rightarrow> real option" where
  "p_p0_fn self = lambdify mach (p_p0_code self)"

definition rho_rho0_fn :: "IsentropicNozzleNumeric \<Rightarrow> real \<Rightarrow> real option" where
  "rho_rho0_fn self = lambdify mach (rho_rho0_code self)"

definition A_Astar_fn :: "IsentropicNozzleNumeric \<Rightarrow> real \<Rightarrow> real option" where
  "A_Astar_fn self = lambdify mach (A_Astar_code self)"

text \<open>
  The accessors hand \<open>M\<close> to the compiled function as it comes: an \<open>ndarray\<close> is evaluated
  element by element, a plain number in Python arithmetic, where the call may raise.
\<close>

definition T_T0 :: "IsentropicNozzleNumeric \<Rightarrow> array_like \<Rightarrow> py_error + real option list" where
  "T_T0 self M = call_compiled (T_T0_code self) M"

definition p_p0 :: "IsentropicNozzleNumeric \<Rightarrow> array_like \<Rightarrow> py_error + real option list" where
  "p_p0 self M = call_compiled (p_p0_code self) M"

definition rho_rho0 :: "IsentropicNozzleNumeric \<Rightarrow> array_like \<Rightarrow> py_error + real option list" where
  "rho_rho0 self M = call_compiled (rho_rho0_code self) M"

definition A_Astar :: "IsentropicNozzleNumeric \<Rightarrow> array_like \<Rightarrow> py_error + real option list" where
  "A_Astar self M = call_compiled (A_Astar_code self) M"

text \<open>Array times scalar.\<close>

definition scale :: "real option list \<Rightarrow> real \<Rightarrow> real option list" where
  "scale xs c = map (map_option (\<lambda>x. x * c)) xs"

text \<open>
  \<open>dimensional_profiles\<close>: \<open>M\<close> is the list of the elements of the array-like argument, which
  \<open>np.asarray(M, dtype=float)\<close> turns into an \<open>ndarray\<close> before the accessors see it.
\<close>

definition dimensional_profiles ::
  "IsentropicNozzleNumeric \<Rightarrow> real list \<Rightarrow> real \<Rightarrow> real \<Rightarrow> real option
     \<Rightarrow> py_error + (string \<times> real option list) list" where
  "dimensional_profiles self M T0 p0 rho0 =
     (let M_arr = NDArray (map Some M) in
      and_then (case rho0 of
                  None \<Rightarrow> (let R = 287 in float_truediv p0 (R * T0))
                | Some x \<Rightarrow> Inr x) (\<lambda>rho0.
      and_then (T_T0 self M_arr) (\<lambda>T_T0.
      and_then (p_p0 self M_arr) (\<lambda>p_p0.
      and_then (rho_rho0 self M_arr) (\<lambda>rho_rho0.
      and_then (A_Astar self M_arr) (\<lambda>A_Astar.
      let T = scale T_T0 T0;
          p = scale p_p0 p0;
          rho = scale rho_rho0 rho0
      in Inr [(''M'', map Some M), (''T'', T), (''p'', p), (''rho'', rho),
              (''A_Astar'', A_Astar)]))))))"

subsection \<open>The methods, statement by statement\<close>

text \<open>
  The same class as Python runs it. An instance is its attribute dictionary; a method body is
  a list of statements run in a frame (the instance and the local variables), and the only
  statement that changes the instance is the assignment to an attribute, \<open>self.a = e\<close>.
  A call that raises leaves the instance as it was when the exception left the method.
  The parameters annotated \<open>float\<close> are numbers; another value there is refused with
  \<open>TypeError\<close>.
\<close>

datatype pyval =
    VFloat real
  | VArray "real option list"
  | VExpr expr
  | VCode expr
  | VNone
  | VDict "(string \<times> pyval) list"

type_synonym namespace = "string \<rightharpoonup> pyval"

record frame =
  self_attrs :: namespace
  local_vars :: namespace

text \<open>
  \<open>Assign x e\<close> is \<open>x = e\<close>, \<open>SetAttr a e\<close> is \<open>self.a = e\<close>, \<open>CallSelf x m args\<close> is
  \<open>x = self.m(args)\<close> (the method runs on the same instance), \<open>IfThen c body\<close> is
  \<open>if c: body\<close>. The expressions only read the frame.
\<close>

datatype stmt =
    Assign string "frame \<Rightarrow> py_error + pyval"
  | SetAttr string "frame \<Rightarrow> py_error + pyval"
  | CallSelf string "namespace \<Rightarrow> pyval list \<Rightarrow> (py_error + pyval) \<times> namespace"
      "frame \<Rightarrow> py_error + pyval list"
  | IfThen "frame \<Rightarrow> bool" "stmt list"

fun exec :: "stmt \<Rightarrow> frame \<Rightarrow> py_error option \<times> frame"
  and exec_all :: "stmt list \<Rightarrow> frame \<Rightarrow> py_error option \<times> frame" where
  "exec (Assign x e) f =
     (case e f of
        Inl err \<Rightarrow> (Some err, f)
      | Inr v \<Rightarrow> (None, f\<lparr>local_vars := (local_vars f)(x \<mapsto> v)\<rparr>))"
| "exec (SetAttr a e) f =
     (case e f of
        Inl err \<Rightarrow> (Some err, f)
      | Inr v \<Rightarrow> (None, f\<lparr>self_attrs := (self_attrs f)(a \<mapsto> v)\<rparr>))"
| "exec (CallSelf x m args) f =
     (case args f of
        Inl err \<Rightarrow> (Some err, f)
      | Inr vs \<Rightarrow>
          (case m (self_attrs f) vs of
             (Inl err, obj) \<Rightarrow> (Some err, f\<lparr>self_attrs := obj\<rparr>)
           | (Inr v, obj) \<Rightarrow> (None, f\<lparr>self_attrs := obj, local_vars := (local_vars f)(x \<mapsto> v)\<rparr>)))"
| "exec (IfThen c body) f = (if c f then exec_all body f else (None, f))"
| "exec_all [] f = (None, f)"
| "exec_all (s # ss) f =
     (case exec s f of
        (Some err, f') \<Rightarrow> (Some err, f')
      | (None, f') \<Rightarrow> exec_all ss f')"

record py_method =
  params :: "string list"
  body :: "stmt list"
  returns :: "frame \<Rightarrow> py_error + pyval"

definition call_method :: "py_method \<Rightarrow> namespace \<Rightarrow> pyval list \<Rightarrow> (py_error + pyval) \<times> namespace" where
  "call_method m obj args =
     (if length args \<noteq> length (params m) then (Inl TypeError, obj)
      else case exec_all (body m) \<lparr>self_attrs = obj, local_vars = map_of (zip (params m) args)\<rparr> of
             (Some err, f) \<Rightarrow> (Inl err, self_attrs f)
           | (None, f) \<Rightarrow> (returns m f, self_attrs f))"

definition local_var :: "string \<Rightarrow> frame \<Rightarrow> py_error + pyval" where
  "local_var x f = (case local_vars f x of None \<Rightarrow> Inl NameError | Some v \<Rightarrow> Inr v)"

definition self_attr :: "string \<Rightarrow> frame \<Rightarrow> py_error + pyval" where
  "self_attr a f = (case self_attrs f a of None \<Rightarrow> Inl AttributeError | Some v \<Rightarrow> Inr v)"

fun as_array_like :: "pyval \<Rightarrow> py_error + array_like" where
  "as_array_like (VFloat x) = Inr (PyScalar x)"
| "as_array_like (VArray xs) = Inr (NDArray xs)"
| "as_array_like v = Inl TypeError"

fun call_code :: "pyval \<Rightarrow> pyval \<Rightarrow> py_error + pyval" where
  "call_code (VCode e) M =
     and_then (as_array_like M) (\<lambda>a. and_then (call_compiled e a) (\<lambda>xs. Inr (VArray xs)))"
| "call_code v M = Inl TypeError"

fun np_asarray :: "pyval \<Rightarrow> py_error + pyval" where
  "np_asarray (VFloat x) = Inr (VArray [Some x])"
| "np_asarray (VArray xs) = Inr (VArray xs)"
| "np_asarray v = Inl TypeError"

fun val_mul :: "pyval \<Rightarrow> pyval \<Rightarrow> py_error + pyval" where
  "val_mul (VFloat x) (VFloat y) = Inr (VFloat (x * y))"
| "val_mul (VArray xs) (VFloat c) = Inr (VArray (scale xs c))"
| "val_mul a b = Inl TypeError"

fun val_truediv :: "pyval \<Rightarrow> pyval \<Rightarrow> py_error + pyval" where
  "val_truediv (VFloat x) (VFloat y) = and_then (float_truediv x y) (\<lambda>q. Inr (VFloat q))"
| "val_truediv a b = Inl TypeError"

fun subscript :: "pyval \<Rightarrow> string \<Rightarrow> py_error + pyval" where
  "subscript (VDict d) k = getitem d k"
| "subscript v k = Inl TypeError"

fun lambdify_mach :: "pyval \<Rightarrow> py_error + pyval" where
  "lambdify_mach (VExpr e) = Inr (VCode e)"
| "lambdify_mach v = Inl TypeError"

fun expressions_for :: "(expr \<Rightarrow> expr) \<Rightarrow> pyval \<Rightarrow> py_error + pyval" where
  "expressions_for simplify (VFloat g) =
     and_then (expressions_for_gamma simplify g) (\<lambda>d. Inr (VDict (map (\<lambda>(k, e). (k, VExpr e)) d)))"
| "expressions_for simplify v = Inl TypeError"

text \<open>
  The four accessors: \<open>return np.asarray(self._T_T0(M), dtype=float)\<close> and its three
  siblings, which differ by the attribute they read.
\<close>

definition accessor :: "string \<Rightarrow> py_method" where
  "accessor name =
     \<lparr>params = [''M''], body = [],
      returns = (\<lambda>f. and_then (self_attr name f) (\<lambda>fn.
                     and_then (local_var ''M'' f) (\<lambda>M. call_code fn M)))\<rparr>"

definition T_T0_method :: py_method where
  "T_T0_method = accessor ''_T_T0''"
definition p_p0_method :: py_method where
  "p_p0_method = accessor ''_p_p0''"
definition rho_rho0_method :: py_method where
  "rho_rho0_method = accessor ''_rho_rho0''"
definition A_Astar_method :: py_method where
  "A_Astar_method = accessor ''_A_Astar''"

definition binary :: "(pyval \<Rightarrow> pyval \<Rightarrow> py_error + pyval) \<Rightarrow> string \<Rightarrow> string \<Rightarrow> frame \<Rightarrow> py_error + pyval" where
  "binary op x y f = and_then (local_var x f) (\<lambda>a. and_then (local_var y f) (\<lambda>b. op a b))"

definition dimensional_profiles_method :: py_method where
  "dimensional_profiles_method =
     \<lparr>params = [''M'', ''T0'', ''p0'', ''rho0''],
      body =
        [Assign ''M_arr'' (\<lambda>f. and_then (local_var ''M'' f) np_asarray),
         IfThen (\<lambda>f. local_vars f ''rho0'' = Some VNone)
           [Assign ''R'' (\<lambda>f. Inr (VFloat 287)),
            Assign ''rho0'' (\<lambda>f. and_then (local_var ''p0'' f) (\<lambda>p0.
                                and_then (binary val_mul ''R'' ''T0'' f) (\<lambda>d. val_truediv p0 d)))],
         CallSelf ''T_T0'' (call_method T_T0_method)
           (\<lambda>f. and_then (local_var ''M_arr'' f) (\<lambda>m. Inr [m])),
         CallSelf ''p_p0'' (call_method p_p0_method)
           (\<lambda>f. and_then (local_var ''M_arr'' f) (\<lambda>m. Inr [m])),
         CallSelf ''rho_rho0'' (call_method rho_rho0_method)
           (\<lambda>f. and_then (local_var ''M_arr'' f) (\<lambda>m. Inr [m])),
         CallSelf ''A_Astar'' (call_method A_Astar_method)
           (\<lambda>f. and_then (local_var ''M_arr'' f) (\<lambda>m. Inr [m])),
         Assign ''T'' (binary val_mul ''T_T0'' ''T0''),
         Assign ''p'' (binary val_mul ''p_p0'' ''p0''),
         Assign ''rho'' (binary val_mul ''rho_rho0'' ''rho0'')],
      returns = (\<lambda>f.
         and_then (local_var ''M_arr'' f) (\<lambda>M.
         and_then (local_var ''T'' f) (\<lambda>T.
         and_then (local_var ''p'' f) (\<lambda>p.
         and_then (local_var ''rho'' f) (\<lambda>rho.
         and_then (local_var ''A_Astar'' f) (\<lambda>A.
         Inr (VDict [(''M'', M), (''T'', T), (''p'', p), (''rho'', rho), (''A_Astar'', A)])))))))\<rparr>"

text \<open>
  \<open>__post_init__\<close>, and the \<open>__init__\<close> that \<open>@dataclass\<close> generates:
  \<open>self.gamma_value = gamma_value; self.__post_init__()\<close>.
\<close>

definition post_init_method :: "(expr \<Rightarrow> expr) \<Rightarrow> py_method" where
  "post_init_method simplify =
     \<lparr>params = [],
      body =
        [Assign ''exprs'' (\<lambda>f. and_then (self_attr ''gamma_value'' f) (expressions_for simplify)),
         SetAttr ''_T_T0'' (\<lambda>f. and_then (local_var ''exprs'' f) (\<lambda>d.
                               and_then (subscript d ''T_T0'') lambdify_mach)),
         SetAttr ''_p_p0'' (\<lambda>f. and_then (local_var ''exprs'' f) (\<lambda>d.
                               and_then (subscript d ''p_p0'') lambdify_mach)),
         SetAttr ''_rho_rho0'' (\<lambda>f. and_then (local_var ''exprs'' f) (\<lambda>d.
                               and_then (subscript d ''rho_rho0'') lambdify_mach)),
         SetAttr ''_A_Astar'' (\<lambda>f. and_then (local_var ''exprs'' f) (\<lambda>d.
                               and_then (subscript d ''A_Astar'') lambdify_mach))],
      returns = (\<lambda>f. Inr VNone)\<rparr>"

definition init_method :: "(expr \<Rightarrow> expr) \<Rightarrow> py_method" where
  "init_method simplify =
     \<lparr>params = [''gamma_value''],
      body =
        [SetAttr ''gamma_value'' (local_var ''gamma_value''),
         CallSelf ''_'' (call_method (post_init_method simplify)) (\<lambda>f. Inr [])],
      returns = (\<lambda>f. Inr VNone)\<rparr>"

definition construct :: "(expr \<Rightarrow> expr) \<Rightarrow> real \<Rightarrow> (py_error + pyval) \<times> namespace" where
  "construct simplify g = call_method (init_method simplify) Map.empty [VFloat g]"

text \<open>The public operations, and a sequence of them on one instance.\<close>

datatype call =
    Call_T_T0 pyval
  | Call_p_p0 pyval
  | Call_rho_rho0 pyval
  | Call_A_Astar pyval
  | Call_dimensional_profiles pyval pyval pyval pyval

fun invoke :: "call \<Rightarrow> namespace \<Rightarrow> (py_error + pyval) \<times> namespace" where
  "invoke (Call_T_T0 M) obj = call_method T_T0_method obj [M]"
| "invoke (Call_p_p0 M) obj = call_method p_p0_method obj [M]"
| "invoke (Call_rho_rho0 M) obj = call_method rho_rho0_method obj [M]"
| "invoke (Call_A_Astar M) obj = call_method A_Astar_method obj [M]"
| "invoke (Call_dimensional_profiles M T0 p0 rho0) obj =
     call_method dimensional_profiles_method obj [M, T0, p0, rho0]"

fun invoke_all :: "call list \<Rightarrow> namespace \<Rightarrow> namespace" where
  "invoke_all [] obj = obj"
| "invoke_all (c # cs) obj = invoke_all cs (snd (invoke c obj))"

text \<open>
  A statement that cannot change the instance: no assignment to an attribute, and only calls
  of methods that leave the instance alone.
\<close>

fun no_write :: "stmt \<Rightarrow> bool" and no_write_all :: "stmt list \<Rightarrow> bool" where
  "no_write (Assign x e) = True"
| "no_write (SetAttr a e) = False"
| "no_write (CallSelf x m args) = (\<forall>obj vs. snd (m obj vs) = obj)"
| "no_write (IfThen c b) = no_write_all b"
| "no_write_all [] = True"
| "no_write_all (s # ss) = (no_write s \<and> no_write_all ss)"

text \<open>The instance dictionary that holds the fields of an evaluator.\<close>

definition object_of :: "IsentropicNozzleNumeric \<Rightarrow> namespace" where
  "object_of ev =
     [''gamma_value'' \<mapsto> VFloat (gamma_value ev),
      ''_T_T0'' \<mapsto> VCode (T_T0_code ev),
      ''_p_p0'' \<mapsto> VCode (p_p0_code ev),
      ''_rho_rho0'' \<mapsto> VCode (rho_rho0_code ev),
      ''_A_Astar'' \<mapsto> VCode (A_Astar_code ev)]"

section \<open>Reading the results\<close>

text \<open>
  The value of a returned expression at a Mach number; a call that raised has none.
\<close>

definition value_at :: "py_error + expr \<Rightarrow> real \<Rightarrow> real option" where
  "value_at r M = (case r of Inl err \<Rightarrow> None | Inr e \<Rightarrow> eval [mach \<mapsto> M] e)"

text \<open>
  The direct composition of the tests, \<open>formula(gamma).subs({gamma: g_val})\<close>, with no
  simplification.
\<close>

definition direct :: "(py_value \<Rightarrow> py_error + expr) \<Rightarrow> real \<Rightarrow> py_error + expr" where
  "direct formula g_value =
     and_then (formula (SymPy (Sym gamma))) (\<lambda>e. Inr (subs e gamma g_value))"

text \<open>The entry of the bundle under a key.\<close>

definition bundled :: "(expr \<Rightarrow> expr) \<Rightarrow> real \<Rightarrow> string \<Rightarrow> py_error + expr" where
  "bundled simplify g_value key =
     and_then (expressions_for_gamma simplify g_value) (\<lambda>exprs. getitem exprs key)"

definition below :: "real option \<Rightarrow> real option \<Rightarrow> bool" where
  "below a b = (case a of None \<Rightarrow> False | Some x \<Rightarrow> (case b of None \<Rightarrow> False | Some y \<Rightarrow> x < y))"

text \<open>\<open>np.isclose(a, b, rtol, atol)\<close> on two defined values.\<close>

definition isclose :: "real option \<Rightarrow> real option \<Rightarrow> real \<Rightarrow> real \<Rightarrow> bool" where
  "isclose a b rtol atol =
     (case a of None \<Rightarrow> False
      | Some x \<Rightarrow> (case b of None \<Rightarrow> False | Some y \<Rightarrow> \<bar>x - y\<bar> \<le> atol + rtol * \<bar>y\<bar>))"

subsection \<open>The closed forms as the specification states them\<close>

text \<open>
  Section 4.1 of the specification, over the reals, undefined where a denominator is zero
  or a power is not a real number.
\<close>

definition spec_temperatureRatio :: "real \<Rightarrow> real \<Rightarrow> real option" where
  "spec_temperatureRatio \<gamma> M = rdiv 1 (1 + (\<gamma> - 1) / 2 * M\<^sup>2)"

definition spec_pressureRatio :: "real \<Rightarrow> real \<Rightarrow> real option" where
  "spec_pressureRatio \<gamma> M =
     (if \<gamma> - 1 = 0 then None
      else Option.bind (spec_temperatureRatio \<gamma> M) (\<lambda>T. rpow T (\<gamma> / (\<gamma> - 1))))"

definition spec_densityRatio :: "real \<Rightarrow> real \<Rightarrow> real option" where
  "spec_densityRatio \<gamma> M =
     (if \<gamma> - 1 = 0 then None
      else Option.bind (spec_temperatureRatio \<gamma> M) (\<lambda>T. rpow T (1 / (\<gamma> - 1))))"

definition spec_areaMachRatio :: "real \<Rightarrow> real \<Rightarrow> real option" where
  "spec_areaMachRatio \<gamma> M =
     (if M = 0 \<or> \<gamma> + 1 = 0 \<or> 2 * (\<gamma> - 1) = 0 then None
      else map_option (\<lambda>p. 1 / M * p)
             (rpow (2 / (\<gamma> + 1) * (1 + (\<gamma> - 1) / 2 * M\<^sup>2)) ((\<gamma> + 1) / (2 * (\<gamma> - 1)))))"

subsection \<open>Two simplifiers that keep the contract\<close>

text \<open>The simplifier that changes nothing.\<close>

definition keep :: "expr \<Rightarrow> expr" where
  "keep e = e"

text \<open>
  A rewriting that is valid only under the positivity of \<open>M\<close>: it identifies
  \<open>sqrt(M**2)\<close> with \<open>M\<close>, so it may multiply by \<open>M / (M**2)**(1/2)\<close>, which is 1 for
  every positive \<open>M\<close>.
\<close>

definition sign_factor :: expr where
  "sign_factor = Div (Sym mach) (Power (Power (Sym mach) (Number 2)) (Number (1 / 2)))"

definition positive_rewrite :: "expr \<Rightarrow> expr" where
  "positive_rewrite e = (if mach \<in> free_symbols e then Mul e sign_factor else e)"

subsection \<open>The closed forms over the reals, for \<open>\<gamma> > 1\<close>\<close>

text \<open>
  For \<open>\<gamma> > 1\<close> every base is positive and the closed forms are plain real functions;
  \<open>log_area\<close> is the logarithm of the area ratio, used for its monotonicity.
\<close>

definition temperature_closed :: "real \<Rightarrow> real \<Rightarrow> real" where
  "temperature_closed \<gamma> M = 1 / (1 + (\<gamma> - 1) / 2 * M\<^sup>2)"

definition area_closed :: "real \<Rightarrow> real \<Rightarrow> real" where
  "area_closed \<gamma> M =
     1 / M * (2 / (\<gamma> + 1) * (1 + (\<gamma> - 1) / 2 * M\<^sup>2)) powr ((\<gamma> + 1) / (2 * (\<gamma> - 1)))"

definition log_area :: "real \<Rightarrow> real \<Rightarrow> real" where
  "log_area \<gamma> M =
     (\<gamma> + 1) / (2 * (\<gamma> - 1)) * ln (2 / (\<gamma> + 1) * (1 + (\<gamma> - 1) / 2 * M\<^sup>2)) - ln M"

section \<open>The shape and the value of the four expressions\<close>

lemma gamma_neq_mach: "gamma \<noteq> mach" "mach \<noteq> gamma"
  by (simp_all add: gamma_def mach_def)

lemma temperature_sym:
  "temperature_ratio_isentropic (SymPy (Sym gamma)) =
     Inr (Div (Number 1) (Add (Number 1)
            (Mul (Div (Sub (Sym gamma) (Number 1)) (Number 2)) (Power (Sym mach) (Number 2)))))"
  by (simp add: temperature_ratio_isentropic_def sympy_pow_def)

lemma temperature_num:
  "temperature_ratio_isentropic (PyNum g) =
     Inr (Div (Number 1) (Add (Number 1)
            (Mul (Number ((g - 1) / 2)) (Power (Sym mach) (Number 2)))))"
  by (simp add: temperature_ratio_isentropic_def sympy_pow_def)

lemma pressure_sym:
  "pressure_ratio_isentropic (SymPy (Sym gamma)) =
     Inr (Power (Div (Number 1) (Add (Number 1)
            (Mul (Div (Sub (Sym gamma) (Number 1)) (Number 2)) (Power (Sym mach) (Number 2)))))
           (Div (Sym gamma) (Sub (Sym gamma) (Number 1))))"
  by (simp add: pressure_ratio_isentropic_def temperature_sym sympy_pow_def)

lemma pressure_num:
  "pressure_ratio_isentropic (PyNum g) =
     (if g - 1 = 0 then Inl ZeroDivisionError
      else Inr (Power (Div (Number 1) (Add (Number 1)
            (Mul (Number ((g - 1) / 2)) (Power (Sym mach) (Number 2)))))
           (Number (g / (g - 1)))))"
  by (simp add: pressure_ratio_isentropic_def temperature_num sympy_pow_def)

lemma density_sym:
  "density_ratio_isentropic (SymPy (Sym gamma)) =
     Inr (Power (Div (Number 1) (Add (Number 1)
            (Mul (Div (Sub (Sym gamma) (Number 1)) (Number 2)) (Power (Sym mach) (Number 2)))))
           (Div (Number 1) (Sub (Sym gamma) (Number 1))))"
  by (simp add: density_ratio_isentropic_def temperature_sym sympy_pow_def)

lemma density_num:
  "density_ratio_isentropic (PyNum g) =
     (if g - 1 = 0 then Inl ZeroDivisionError
      else Inr (Power (Div (Number 1) (Add (Number 1)
            (Mul (Number ((g - 1) / 2)) (Power (Sym mach) (Number 2)))))
           (Number (1 / (g - 1)))))"
  by (simp add: density_ratio_isentropic_def temperature_num sympy_pow_def)

lemma area_sym:
  "area_mach_relation (SymPy (Sym gamma)) =
     Inr (Mul (Div (Number 1) (Sym mach))
           (Power (Mul (Div (Number 2) (Add (Sym gamma) (Number 1)))
                       (Add (Number 1)
                          (Mul (Div (Sub (Sym gamma) (Number 1)) (Number 2)) (Power (Sym mach) (Number 2)))))
                  (Div (Add (Sym gamma) (Number 1)) (Mul (Number 2) (Sub (Sym gamma) (Number 1))))))"
  by (simp add: area_mach_relation_def sympy_pow_def)

lemma area_num:
  "area_mach_relation (PyNum g) =
     (if g + 1 = 0 \<or> 2 * (g - 1) = 0 then Inl ZeroDivisionError
      else Inr (Mul (Div (Number 1) (Sym mach))
           (Power (Mul (Number (2 / (g + 1)))
                       (Add (Number 1)
                          (Mul (Number ((g - 1) / 2)) (Power (Sym mach) (Number 2)))))
                  (Number ((g + 1) / (2 * (g - 1)))))))"
  by (simp add: area_mach_relation_def sympy_pow_def)

lemma rpow_two: "rpow M 2 = Some (M\<^sup>2)"
  by (auto simp: rpow_def is_int_def power_int_def)

lemma eval_subs: "eval env (subs e s v) = eval (env(s \<mapsto> v)) e"
  by (induction e) auto

lemma lift2_Some [simp]: "lift2 f (Some x) (Some y) = f x y"
  by (simp add: lift2_def)

lemma lift2_None [simp]: "lift2 f None b = None" "lift2 f a None = None"
  by (simp_all add: lift2_def split: option.splits)

lemma lift2_map: "lift2 (\<lambda>x y. Some (h x y)) (Some x) b = map_option (h x) b"
  by (cases b) simp_all

lemma env2 [simp]:
  "[gamma \<mapsto> g, mach \<mapsto> M] gamma = Some g" "[gamma \<mapsto> g, mach \<mapsto> M] mach = Some M"
  "[mach \<mapsto> M, gamma \<mapsto> g] gamma = Some g" "[mach \<mapsto> M, gamma \<mapsto> g] mach = Some M"
  "([mach \<mapsto> M](gamma \<mapsto> g)) mach = Some M"
  by (simp_all add: gamma_def mach_def)

lemma temperature_value_sym:
  "value_at (direct temperature_ratio_isentropic g) M = spec_temperatureRatio g M"
  by (simp add: value_at_def direct_def temperature_sym eval_subs gamma_neq_mach rpow_two rdiv_def
      spec_temperatureRatio_def)

lemma temperature_value_num:
  "value_at (temperature_ratio_isentropic (PyNum g)) M = spec_temperatureRatio g M"
  by (simp add: value_at_def temperature_num rpow_two rdiv_def spec_temperatureRatio_def)

lemma pressure_value_sym:
  "value_at (direct pressure_ratio_isentropic g) M = spec_pressureRatio g M"
  by (simp add: value_at_def direct_def pressure_sym eval_subs gamma_neq_mach rpow_two rdiv_def
      spec_pressureRatio_def spec_temperatureRatio_def)

lemma pressure_value_num:
  "value_at (pressure_ratio_isentropic (PyNum g)) M = spec_pressureRatio g M"
  by (simp add: value_at_def pressure_num rpow_two rdiv_def
      spec_pressureRatio_def spec_temperatureRatio_def)

lemma density_value_sym:
  "value_at (direct density_ratio_isentropic g) M = spec_densityRatio g M"
  by (simp add: value_at_def direct_def density_sym eval_subs gamma_neq_mach rpow_two rdiv_def
      spec_densityRatio_def spec_temperatureRatio_def)

lemma density_value_num:
  "value_at (density_ratio_isentropic (PyNum g)) M = spec_densityRatio g M"
  by (simp add: value_at_def density_num rpow_two rdiv_def
      spec_densityRatio_def spec_temperatureRatio_def)

lemma area_value_sym:
  "value_at (direct area_mach_relation g) M = spec_areaMachRatio g M"
  by (simp add: value_at_def direct_def area_sym eval_subs gamma_neq_mach rpow_two rdiv_def
      spec_areaMachRatio_def lift2_map)

lemma area_value_num:
  "value_at (area_mach_relation (PyNum g)) M = spec_areaMachRatio g M"
  by (simp add: value_at_def area_num rpow_two rdiv_def
      spec_areaMachRatio_def lift2_map)

section \<open>The closed forms for \<open>\<gamma> > 1\<close>\<close>

lemma base_pos: "1 \<le> g \<Longrightarrow> 0 < 1 + (g - 1) / 2 * M\<^sup>2" for g M :: real
proof -
  assume "1 \<le> g"
  then have "0 \<le> (g - 1) / 2 * M\<^sup>2" by simp
  then show ?thesis by linarith
qed

lemma temperature_closed_pos: "1 \<le> g \<Longrightarrow> 0 < temperature_closed g M"
  using base_pos [of g M] by (simp add: temperature_closed_def)

lemma spec_temperature_closed:
  "1 \<le> g \<Longrightarrow> spec_temperatureRatio g M = Some (temperature_closed g M)"
  using base_pos [of g M] by (simp add: spec_temperatureRatio_def rdiv_def temperature_closed_def)

lemma spec_pressure_closed:
  "1 < g \<Longrightarrow> spec_pressureRatio g M = Some (temperature_closed g M powr (g / (g - 1)))"
  using temperature_closed_pos [of g M]
  by (simp add: spec_pressureRatio_def spec_temperature_closed rpow_def)

lemma spec_density_closed:
  "1 < g \<Longrightarrow> spec_densityRatio g M = Some (temperature_closed g M powr (1 / (g - 1)))"
  using temperature_closed_pos [of g M]
  by (simp add: spec_densityRatio_def spec_temperature_closed rpow_def)

lemma term_pos: "1 \<le> g \<Longrightarrow> 0 < 2 / (g + 1) * (1 + (g - 1) / 2 * M\<^sup>2)" for g M :: real
  using base_pos [of g M] by simp

lemma spec_area_closed:
  "1 < g \<Longrightarrow> M \<noteq> 0 \<Longrightarrow> spec_areaMachRatio g M = Some (area_closed g M)"
  using term_pos [of g M]
  by (simp add: spec_areaMachRatio_def rpow_def area_closed_def)

lemma spec_area_zero: "spec_areaMachRatio g 0 = None"
  by (simp add: spec_areaMachRatio_def)

lemma temperature_closed_zero: "temperature_closed g 0 = 1"
  by (simp add: temperature_closed_def)

lemma area_closed_one: "1 < g \<Longrightarrow> area_closed g 1 = 1"
proof -
  assume g: "1 < g"
  have "2 / (g + 1) * (1 + (g - 1) / 2 * 1\<^sup>2) = 1"
    using g by (simp add: field_simps)
  then have "area_closed g 1 = 1 / 1 * 1 powr ((g + 1) / (2 * (g - 1)))"
    unfolding area_closed_def by (rule arg_cong)
  then show ?thesis by simp
qed

lemma temperature_closed_decreasing:
  assumes "1 < g" "0 \<le> M1" "M1 < M2"
  shows "temperature_closed g M2 < temperature_closed g M1"
proof -
  have "M1\<^sup>2 < M2\<^sup>2" using assms by (simp add: power_strict_mono)
  then have "(g - 1) / 2 * M1\<^sup>2 < (g - 1) / 2 * M2\<^sup>2" using assms by simp
  then have "1 + (g - 1) / 2 * M1\<^sup>2 < 1 + (g - 1) / 2 * M2\<^sup>2" by simp
  then show ?thesis
    unfolding temperature_closed_def
    using base_pos [of g M1] assms by (simp add: frac_less2)
qed

lemma power_closed_decreasing:
  assumes "1 < g" "0 \<le> M1" "M1 < M2" "0 < a"
  shows "temperature_closed g M2 powr a < temperature_closed g M1 powr a"
  using temperature_closed_decreasing [OF assms(1-3)] temperature_closed_pos [of g M2] assms
  by (simp add: powr_less_mono2)

lemma area_closed_exp:
  assumes "1 < g" "0 < M"
  shows "area_closed g M = exp (log_area g M)"
proof -
  define B where "B = 2 / (g + 1) * (1 + (g - 1) / 2 * M\<^sup>2)"
  define e where "e = (g + 1) / (2 * (g - 1))"
  have B: "0 < B" unfolding B_def using term_pos [of g M] assms by simp
  have "exp (e * ln B - ln M) = exp (e * ln B) * exp (- ln M)"
    by (simp only: diff_conv_add_uminus exp_add)
  also have "exp (- ln M) = 1 / M"
    using assms by (simp add: exp_minus inverse_eq_divide)
  also have "exp (e * ln B) = B powr e"
    using B by (simp add: powr_def)
  finally have "exp (e * ln B - ln M) = 1 / M * B powr e" by simp
  then show ?thesis by (simp add: area_closed_def log_area_def B_def e_def)
qed

lemma log_area_deriv:
  assumes "1 < g" "0 < M"
  shows "(log_area g has_real_derivative (M\<^sup>2 - 1) / (M * (1 + (g - 1) / 2 * M\<^sup>2))) (at M)"
proof -
  define c where "c = 2 / (g + 1)"
  define a where "a = (g - 1) / 2"
  define e where "e = (g + 1) / (2 * (g - 1))"
  define D where "D = 1 + a * M\<^sup>2"
  have c: "0 < c" using assms by (simp add: c_def)
  have D: "0 < D" using base_pos [of g M] assms by (simp add: D_def a_def)
  have ae: "e * (a * 2) = (g + 1) / 2"
  proof -
    have "g - 1 \<noteq> 0" using assms by simp
    then show ?thesis unfolding e_def a_def by (simp add: field_simps)
  qed
  have dB: "((\<lambda>M. c * (1 + a * M\<^sup>2)) has_real_derivative c * (a * (2 * M))) (at M)"
    by (auto intro!: derivative_eq_intros)
  have dln: "((\<lambda>M. ln (c * (1 + a * M\<^sup>2))) has_real_derivative
               (1 / (c * D)) * (c * (a * (2 * M)))) (at M)"
    unfolding D_def
    by (rule DERIV_chain2 [where f = ln, OF DERIV_ln_divide dB]) (use c D in \<open>simp add: D_def\<close>)
  have dM: "(ln has_real_derivative 1 / M) (at M)"
    using assms by (simp add: DERIV_ln_divide)
  have d: "((\<lambda>M. e * ln (c * (1 + a * M\<^sup>2)) - ln M) has_real_derivative
          e * ((1 / (c * D)) * (c * (a * (2 * M)))) - 1 / M) (at M)"
    by (intro DERIV_diff DERIV_cmult dln dM)
  have "e * ((1 / (c * D)) * (c * (a * (2 * M)))) = (e * (a * 2)) * M / D"
    using c D by (simp add: field_simps)
  also have "\<dots> = (g + 1) / 2 * M / D" by (simp only: ae)
  finally have "e * ((1 / (c * D)) * (c * (a * (2 * M)))) - 1 / M = (g + 1) / 2 * M / D - 1 / M"
    by simp
  also have "\<dots> = ((g + 1) / 2 * M * M - D) / (M * D)"
    using assms D by (simp add: field_simps)
  also have "(g + 1) / 2 * M * M - D = M\<^sup>2 - 1"
    by (simp add: D_def a_def power2_eq_square field_simps)
  finally have "e * ((1 / (c * D)) * (c * (a * (2 * M)))) - 1 / M = (M\<^sup>2 - 1) / (M * D)" .
  with d have "((\<lambda>M. e * ln (c * (1 + a * M\<^sup>2)) - ln M) has_real_derivative
          (M\<^sup>2 - 1) / (M * D)) (at M)" by simp
  moreover have "log_area g = (\<lambda>M. e * ln (c * (1 + a * M\<^sup>2)) - ln M)"
    by (rule ext) (simp add: log_area_def e_def c_def a_def)
  ultimately show ?thesis by (simp add: D_def a_def)
qed

lemma log_area_increasing:
  assumes g: "1 < g" and M: "1 \<le> M1" "M1 < M2"
  shows "log_area g M1 < log_area g M2"
proof (rule DERIV_pos_imp_increasing_open [OF M(2)])
  fix x assume x: "M1 < x" "x < M2"
  then have x1: "1 < x" using M by simp
  then have "1 < x\<^sup>2" by (simp add: power2_eq_square less_1_mult)
  moreover have "0 < x * (1 + (g - 1) / 2 * x\<^sup>2)"
    using base_pos [of g x] g x1 by simp
  ultimately have "0 < (x\<^sup>2 - 1) / (x * (1 + (g - 1) / 2 * x\<^sup>2))" by simp
  then show "\<exists>y. (log_area g has_real_derivative y) (at x) \<and> 0 < y"
    using log_area_deriv [OF g, of x] x1 by (intro exI conjI) auto
next
  have "\<exists>y. (log_area g has_real_derivative y) (at x)" if "M1 \<le> x" "x \<le> M2" for x
  proof -
    have "0 < x" using that M by simp
    from log_area_deriv [OF g this] show ?thesis by (rule exI)
  qed
  then show "continuous_on {M1..M2} (log_area g)"
    by (rule DERIV_atLeastAtMost_imp_continuous_on)
qed

lemma log_area_decreasing:
  assumes g: "1 < g" and M: "0 < M1" "M1 < M2" "M2 \<le> 1"
  shows "log_area g M2 < log_area g M1"
proof (rule DERIV_neg_imp_decreasing_open [OF M(2)])
  fix x assume x: "M1 < x" "x < M2"
  then have x1: "0 < x" "x < 1" using M by simp_all
  then have "x * x < 1 * 1" by (intro mult_strict_mono) auto
  then have "x\<^sup>2 - 1 < 0" by (simp add: power2_eq_square)
  moreover have "0 < x * (1 + (g - 1) / 2 * x\<^sup>2)"
    using base_pos [of g x] g x1 by simp
  ultimately have "(x\<^sup>2 - 1) / (x * (1 + (g - 1) / 2 * x\<^sup>2)) < 0"
    by (simp add: divide_neg_pos)
  then show "\<exists>y. (log_area g has_real_derivative y) (at x) \<and> y < 0"
    using log_area_deriv [OF g, of x] x1 by (intro exI conjI) auto
next
  have "\<exists>y. (log_area g has_real_derivative y) (at x)" if "M1 \<le> x" "x \<le> M2" for x
  proof -
    have "0 < x" using that M by simp
    from log_area_deriv [OF g this] show ?thesis by (rule exI)
  qed
  then show "continuous_on {M1..M2} (log_area g)"
    by (rule DERIV_atLeastAtMost_imp_continuous_on)
qed

lemma area_closed_increasing:
  assumes "1 < g" "1 \<le> M1" "M1 < M2"
  shows "area_closed g M1 < area_closed g M2"
  using log_area_increasing [OF assms] assms
  by (simp add: area_closed_exp)

lemma area_closed_decreasing:
  assumes "1 < g" "0 < M1" "M1 < M2" "M2 \<le> 1"
  shows "area_closed g M2 < area_closed g M1"
  using log_area_decreasing [OF assms] assms
  by (simp add: area_closed_exp)

lemma area_closed_minimum:
  assumes "1 < g" "0 < M" "M \<noteq> 1"
  shows "area_closed g 1 < area_closed g M"
proof (cases "M < 1")
  case True
  then show ?thesis using area_closed_decreasing [of g M 1] assms by simp
next
  case False
  then have "1 < M" using assms by simp
  then show ?thesis using area_closed_increasing [of g 1 M] assms by simp
qed

section \<open>The bundle, the evaluator and the simplifiers\<close>

lemma bundled_T_T0:
  "bundled s g ''T_T0'' = and_then (direct temperature_ratio_isentropic g) (\<lambda>e. Inr (s e))"
  by (simp add: bundled_def expressions_for_gamma_def direct_def getitem_def
      temperature_sym pressure_sym density_sym area_sym)

lemma bundled_p_p0:
  "bundled s g ''p_p0'' = and_then (direct pressure_ratio_isentropic g) (\<lambda>e. Inr (s e))"
  by (simp add: bundled_def expressions_for_gamma_def direct_def getitem_def
      temperature_sym pressure_sym density_sym area_sym)

lemma bundled_rho_rho0:
  "bundled s g ''rho_rho0'' = and_then (direct density_ratio_isentropic g) (\<lambda>e. Inr (s e))"
  by (simp add: bundled_def expressions_for_gamma_def direct_def getitem_def
      temperature_sym pressure_sym density_sym area_sym)

lemma bundled_A_Astar:
  "bundled s g ''A_Astar'' = and_then (direct area_mach_relation g) (\<lambda>e. Inr (s e))"
  by (simp add: bundled_def expressions_for_gamma_def direct_def getitem_def
      temperature_sym pressure_sym density_sym area_sym)

lemma value_at_simplified:
  "exact_at s M \<Longrightarrow> value_at (and_then r (\<lambda>e. Inr (s e))) M = value_at r M"
  by (cases r) (simp_all add: value_at_def exact_at_def)

lemma value_at_Inr: "value_at (Inr e) = lambdify mach e"
  by (rule ext) (simp add: value_at_def lambdify_def)

lemma direct_Inr:
  "direct temperature_ratio_isentropic g = Inr (projr (direct temperature_ratio_isentropic g))"
  "direct pressure_ratio_isentropic g = Inr (projr (direct pressure_ratio_isentropic g))"
  "direct density_ratio_isentropic g = Inr (projr (direct density_ratio_isentropic g))"
  "direct area_mach_relation g = Inr (projr (direct area_mach_relation g))"
  by (simp_all add: direct_def temperature_sym pressure_sym density_sym area_sym)

lemma post_init_eq:
  "post_init s g =
     Inr \<lparr>gamma_value = g,
          T_T0_code = projr (bundled s g ''T_T0''),
          p_p0_code = projr (bundled s g ''p_p0''),
          rho_rho0_code = projr (bundled s g ''rho_rho0''),
          A_Astar_code = projr (bundled s g ''A_Astar'')\<rparr>"
  by (simp add: post_init_def bundled_def expressions_for_gamma_def getitem_def
      temperature_sym pressure_sym density_sym area_sym)

lemma bundled_Inr:
  "bundled s g ''T_T0'' = Inr (projr (bundled s g ''T_T0''))"
  "bundled s g ''p_p0'' = Inr (projr (bundled s g ''p_p0''))"
  "bundled s g ''rho_rho0'' = Inr (projr (bundled s g ''rho_rho0''))"
  "bundled s g ''A_Astar'' = Inr (projr (bundled s g ''A_Astar''))"
  by (simp_all add: bundled_def expressions_for_gamma_def getitem_def
      temperature_sym pressure_sym density_sym area_sym)

lemma post_init_fn:
  "T_T0_fn (projr (post_init s g)) = value_at (bundled s g ''T_T0'')"
  "p_p0_fn (projr (post_init s g)) = value_at (bundled s g ''p_p0'')"
  "rho_rho0_fn (projr (post_init s g)) = value_at (bundled s g ''rho_rho0'')"
  "A_Astar_fn (projr (post_init s g)) = value_at (bundled s g ''A_Astar'')"
proof -
  have v: "value_at r = lambdify mach (projr r)" if "r = Inr (projr r)" for r
    using that value_at_Inr [of "projr r"] by simp
  show "T_T0_fn (projr (post_init s g)) = value_at (bundled s g ''T_T0'')"
    by (simp add: v [OF bundled_Inr(1)] post_init_eq T_T0_fn_def)
  show "p_p0_fn (projr (post_init s g)) = value_at (bundled s g ''p_p0'')"
    by (simp add: v [OF bundled_Inr(2)] post_init_eq p_p0_fn_def)
  show "rho_rho0_fn (projr (post_init s g)) = value_at (bundled s g ''rho_rho0'')"
    by (simp add: v [OF bundled_Inr(3)] post_init_eq rho_rho0_fn_def)
  show "A_Astar_fn (projr (post_init s g)) = value_at (bundled s g ''A_Astar'')"
    by (simp add: v [OF bundled_Inr(4)] post_init_eq A_Astar_fn_def)
qed

lemma call_ndarray:
  "call_compiled e (NDArray (map Some M)) = Inr (map (lambdify mach e) M)"
  by (simp add: call_compiled_def comp_def)

lemma accessor_ndarray:
  "T_T0 self (NDArray (map Some M)) = Inr (map (T_T0_fn self) M)"
  "p_p0 self (NDArray (map Some M)) = Inr (map (p_p0_fn self) M)"
  "rho_rho0 self (NDArray (map Some M)) = Inr (map (rho_rho0_fn self) M)"
  "A_Astar self (NDArray (map Some M)) = Inr (map (A_Astar_fn self) M)"
  by (simp_all add: T_T0_def p_p0_def rho_rho0_def A_Astar_def call_ndarray
      T_T0_fn_def p_p0_fn_def rho_rho0_fn_def A_Astar_fn_def)

lemma keep_sound: "sound_simplify keep"
  by (simp add: sound_simplify_def keep_def)

lemma keep_exact: "exact_at keep M"
  by (simp add: exact_at_def keep_def)

lemma admissible_mach: "0 < M \<Longrightarrow> admissible [mach \<mapsto> M]"
  by (simp add: admissible_def mach_def)

lemma sound_exact: "sound_simplify s \<Longrightarrow> 0 < M \<Longrightarrow> exact_at s M"
  using admissible_mach [of M] by (simp add: sound_simplify_def exact_at_def)

lemma eval_unbound: "s \<in> free_symbols e \<Longrightarrow> env s = None \<Longrightarrow> eval env e = None"
  by (induction e) auto

lemma rpow_pos: "0 < a \<Longrightarrow> rpow a b = Some (a powr b)"
  by (simp add: rpow_def)

lemma positive_mach: "positive mach"
  by (simp add: mach_def)

lemma sign_factor_pos: "env mach = Some v \<Longrightarrow> 0 < v \<Longrightarrow> eval env sign_factor = Some 1"
  by (simp add: sign_factor_def rpow_two rpow_pos rdiv_def powr_half_sqrt)

lemma positive_rewrite_sound: "sound_simplify positive_rewrite"
  unfolding sound_simplify_def
proof (intro allI impI)
  fix e env assume adm: "admissible env"
  show "eval env (positive_rewrite e) = eval env e"
  proof (cases "mach \<in> free_symbols e")
    case False
    then show ?thesis by (simp add: positive_rewrite_def)
  next
    case True
    show ?thesis
    proof (cases "env mach")
      case None
      with True show ?thesis by (simp add: positive_rewrite_def eval_unbound)
    next
      case (Some v)
      with adm positive_mach have "0 < v" unfolding admissible_def by blast
      with Some have "eval env sign_factor = Some 1" by (rule sign_factor_pos)
      with True show ?thesis
        by (cases "eval env e") (simp_all add: positive_rewrite_def)
    qed
  qed
qed

lemma sign_factor_neg: "eval [mach \<mapsto> - 1] sign_factor = Some (- 1)"
  by (simp add: sign_factor_def rpow_two rpow_pos rdiv_def)

section \<open>The claims\<close>

subsection \<open>C9: the public operations leave the evaluator unchanged\<close>

lemma exec_frame:
  "no_write s \<Longrightarrow> self_attrs (snd (exec s f)) = self_attrs f"
  "no_write_all ss \<Longrightarrow> self_attrs (snd (exec_all ss f)) = self_attrs f"
proof (induction s f and ss f rule: exec_exec_all.induct)
  case (1 x e f)
  then show ?case by (simp split: sum.splits)
next
  case (2 a e f)
  then show ?case by simp
next
  case (3 x m args f)
  then show ?case
    by (auto split: sum.splits prod.splits) (metis snd_conv)+
next
  case (4 c body f)
  then show ?case by simp
next
  case (5 f)
  then show ?case by simp
next
  case (6 s ss f)
  then show ?case
    by (cases "exec s f") (auto split: option.splits)
qed

lemma call_method_frame:
  "no_write_all (body m) \<Longrightarrow> snd (call_method m obj args) = obj"
  using exec_frame(2) [of "body m" "\<lparr>self_attrs = obj, local_vars = map_of (zip (params m) args)\<rparr>"]
  by (auto simp: call_method_def split: prod.splits option.splits)

lemma accessor_frame: "snd (call_method (accessor name) obj args) = obj"
  by (rule call_method_frame) (simp add: accessor_def)

lemma dimensional_profiles_frame:
  "snd (call_method dimensional_profiles_method obj args) = obj"
  by (rule call_method_frame)
    (simp add: dimensional_profiles_method_def T_T0_method_def p_p0_method_def
      rho_rho0_method_def A_Astar_method_def accessor_frame)

lemma snd_invoke: "snd (invoke c obj) = obj"
  by (cases c)
    (simp_all add: T_T0_method_def p_p0_method_def rho_rho0_method_def A_Astar_method_def
      accessor_frame dimensional_profiles_frame)

lemma invoke_all_id: "invoke_all cs obj = obj"
  by (induction cs arbitrary: obj) (simp_all add: snd_invoke)

lemma expressions_for_gamma_eq:
  "expressions_for_gamma s g =
     Inr [(''T_T0'', projr (bundled s g ''T_T0'')),
          (''p_p0'', projr (bundled s g ''p_p0'')),
          (''rho_rho0'', projr (bundled s g ''rho_rho0'')),
          (''A_Astar'', projr (bundled s g ''A_Astar''))]"
  by (simp add: bundled_def expressions_for_gamma_def getitem_def
      temperature_sym pressure_sym density_sym area_sym)

lemma call_method_record:
  "call_method \<lparr>params = ps, body = b, returns = r\<rparr> obj args =
     (if length args \<noteq> length ps then (Inl TypeError, obj)
      else case exec_all b \<lparr>self_attrs = obj, local_vars = map_of (zip ps args)\<rparr> of
             (Some err, f) \<Rightarrow> (Inl err, self_attrs f)
           | (None, f) \<Rightarrow> (r f, self_attrs f))"
  by (simp add: call_method_def split: prod.splits option.splits)

lemma post_init_method_run:
  "call_method (post_init_method s) [''gamma_value'' \<mapsto> VFloat g] [] =
     (Inr VNone, object_of (projr (post_init s g)))"
  by (simp add: call_method_def post_init_method_def self_attr_def local_var_def
      expressions_for_gamma_eq getitem_def object_of_def post_init_eq)

lemma construct_eq:
  "construct s g = (Inr VNone, object_of (projr (post_init s g)))"
  by (simp add: construct_def init_method_def call_method_record local_var_def
      post_init_method_run)

lemma post_init_method_writes:
  "snd (call_method (post_init_method s) [''gamma_value'' \<mapsto> VFloat g] []) \<noteq>
     [''gamma_value'' \<mapsto> VFloat g]"
proof
  assume "snd (call_method (post_init_method s) [''gamma_value'' \<mapsto> VFloat g] []) =
     [''gamma_value'' \<mapsto> VFloat g]"
  then have "object_of (projr (post_init s g)) ''_T_T0'' = [''gamma_value'' \<mapsto> VFloat g] ''_T_T0''"
    by (simp add: post_init_method_run)
  then show False by (simp add: object_of_def)
qed

lemma accessor_result:
  "fst (call_method T_T0_method (object_of ev) [M]) =
     and_then (as_array_like M) (\<lambda>a. and_then (T_T0 ev a) (\<lambda>xs. Inr (VArray xs)))"
  "fst (call_method p_p0_method (object_of ev) [M]) =
     and_then (as_array_like M) (\<lambda>a. and_then (p_p0 ev a) (\<lambda>xs. Inr (VArray xs)))"
  "fst (call_method rho_rho0_method (object_of ev) [M]) =
     and_then (as_array_like M) (\<lambda>a. and_then (rho_rho0 ev a) (\<lambda>xs. Inr (VArray xs)))"
  "fst (call_method A_Astar_method (object_of ev) [M]) =
     and_then (as_array_like M) (\<lambda>a. and_then (A_Astar ev a) (\<lambda>xs. Inr (VArray xs)))"
  by (simp_all add: call_method_def T_T0_method_def p_p0_method_def rho_rho0_method_def
      A_Astar_method_def accessor_def self_attr_def local_var_def object_of_def
      T_T0_def p_p0_def rho_rho0_def A_Astar_def)

text \<open>
  Claim C9. Construction assigns the five attributes (\<open>gamma_value\<close> and the four compiled
  functions; \<open>__post_init__\<close> does change the instance) and nothing else does: every public
  operation (the four accessors and
  \<open>dimensional_profiles\<close>), run statement by statement, whether it returns or raises,
  leaves the instance dictionary as it found it. So after any sequence \<open>cs\<close> of calls the
  attributes are those set at construction, and a call \<open>c\<close> returns what it returns on the
  instance before the sequence.
\<close>

theorem C9_frame:
  "construct simplify \<gamma> = (Inr VNone, object_of (projr (post_init simplify \<gamma>))) \<and>
   snd (call_method (post_init_method simplify) [''gamma_value'' \<mapsto> VFloat \<gamma>] []) \<noteq>
     [''gamma_value'' \<mapsto> VFloat \<gamma>] \<and>
   snd (invoke c obj) = obj \<and>
   invoke_all cs obj = obj \<and>
   fst (invoke c (invoke_all cs obj)) = fst (invoke c obj) \<and>
   invoke_all cs (snd (construct simplify \<gamma>)) ''gamma_value'' = Some (VFloat \<gamma>) \<and>
   invoke_all cs (snd (construct simplify \<gamma>)) ''_T_T0'' =
     Some (VCode (T_T0_code (projr (post_init simplify \<gamma>)))) \<and>
   invoke_all cs (snd (construct simplify \<gamma>)) ''_p_p0'' =
     Some (VCode (p_p0_code (projr (post_init simplify \<gamma>)))) \<and>
   invoke_all cs (snd (construct simplify \<gamma>)) ''_rho_rho0'' =
     Some (VCode (rho_rho0_code (projr (post_init simplify \<gamma>)))) \<and>
   invoke_all cs (snd (construct simplify \<gamma>)) ''_A_Astar'' =
     Some (VCode (A_Astar_code (projr (post_init simplify \<gamma>))))"
proof -
  let ?ev = "projr (post_init simplify \<gamma>)"
  have built: "construct simplify \<gamma> = (Inr VNone, object_of ?ev)"
    by (rule construct_eq)
  have one: "snd (invoke c obj) = obj"
    by (rule snd_invoke)
  have many: "invoke_all cs obj = obj" for obj
    by (rule invoke_all_id)
  have same: "fst (invoke c (invoke_all cs obj)) = fst (invoke c obj)"
    by (simp only: many)
  have after: "invoke_all cs (snd (construct simplify \<gamma>)) = object_of ?ev"
    by (simp only: built many snd_conv)
  have attrs:
    "object_of ?ev ''gamma_value'' = Some (VFloat \<gamma>)"
    "object_of ?ev ''_T_T0'' = Some (VCode (T_T0_code ?ev))"
    "object_of ?ev ''_p_p0'' = Some (VCode (p_p0_code ?ev))"
    "object_of ?ev ''_rho_rho0'' = Some (VCode (rho_rho0_code ?ev))"
    "object_of ?ev ''_A_Astar'' = Some (VCode (A_Astar_code ?ev))"
    by (simp_all add: object_of_def post_init_eq)
  show ?thesis
    unfolding after
    using built post_init_method_writes [of simplify \<gamma>] one many [of obj] same attrs
    by (intro conjI)
qed

text \<open>
  The two call paths of an accessor at the pole of the area ratio, with the expression left
  as it is: a plain number raises, an \<open>ndarray\<close> gets an undefined element.
\<close>

lemma A_Astar_code_keep:
  "A_Astar_code (projr (post_init keep g)) =
     Mul (Div (Number 1) (Sym mach))
       (Power (Mul (Div (Number 2) (Add (Number g) (Number 1)))
                 (Add (Number 1)
                    (Mul (Div (Sub (Number g) (Number 1)) (Number 2)) (Power (Sym mach) (Number 2)))))
          (Div (Add (Number g) (Number 1)) (Mul (Number 2) (Sub (Number g) (Number 1)))))"
  by (simp add: post_init_eq bundled_def expressions_for_gamma_def getitem_def
      temperature_sym pressure_sym density_sym area_sym keep_def gamma_neq_mach)

lemma scalar_pole:
  "A_Astar (projr (post_init keep 2)) (PyScalar 0) = Inl ZeroDivisionError"
  "A_Astar (projr (post_init keep 2)) (NDArray [Some 0]) = Inr [None]"
  by (simp_all add: A_Astar_def A_Astar_code_keep call_compiled_def call_scalar_def
      float_truediv_def lambdify_def rdiv_def rpow_def)

lemma accessor_call_ndarray:
  "call_method T_T0_method (object_of ev) [VArray (map Some M)] =
     (Inr (VArray (map (T_T0_fn ev) M)), object_of ev)"
  "call_method p_p0_method (object_of ev) [VArray (map Some M)] =
     (Inr (VArray (map (p_p0_fn ev) M)), object_of ev)"
  "call_method rho_rho0_method (object_of ev) [VArray (map Some M)] =
     (Inr (VArray (map (rho_rho0_fn ev) M)), object_of ev)"
  "call_method A_Astar_method (object_of ev) [VArray (map Some M)] =
     (Inr (VArray (map (A_Astar_fn ev) M)), object_of ev)"
  using accessor_result [of ev "VArray (map Some M)"]
    accessor_frame [of _ "object_of ev" "[VArray (map Some M)]"]
  by (simp_all add: prod_eq_iff accessor_ndarray T_T0_method_def p_p0_method_def
      rho_rho0_method_def A_Astar_method_def)

lemma dimensional_profiles_method_result:
  "fst (call_method dimensional_profiles_method (object_of ev)
          [VArray (map Some M), VFloat T0, VFloat p0,
           (case rho0 of None \<Rightarrow> VNone | Some x \<Rightarrow> VFloat x)]) =
     and_then (dimensional_profiles ev M T0 p0 rho0)
       (\<lambda>d. Inr (VDict (map (\<lambda>(k, xs). (k, VArray xs)) d)))"
  by (cases rho0)
    (simp_all add: dimensional_profiles_method_def call_method_record local_var_def binary_def
      accessor_call_ndarray dimensional_profiles_def accessor_ndarray float_truediv_def)

subsection \<open>C2: the four formula functions return the stated closed forms\<close>

lemma direct_not_raised:
  "\<not> isl (direct temperature_ratio_isentropic g)" "\<not> isl (direct pressure_ratio_isentropic g)"
  "\<not> isl (direct density_ratio_isentropic g)" "\<not> isl (direct area_mach_relation g)"
  by (simp_all add: direct_def temperature_sym pressure_sym density_sym area_sym)

text \<open>
  Claim C2. For every \<open>\<gamma> \<noteq> 1\<close>, bound through the symbol (\<open>direct\<close>) or passed as a
  number, each formula function returns an expression whose value at every \<open>M\<close> is the closed
  form of the specification: \<open>1/(1 + (\<gamma>-1)/2 M\<^sup>2)\<close>, its powers \<open>\<gamma>/(\<gamma>-1)\<close> and
  \<open>1/(\<gamma>-1)\<close>, and \<open>(1/M) [(2/(\<gamma>+1)) (1 + (\<gamma>-1)/2 M\<^sup>2)]\<close> to the power
  \<open>(\<gamma>+1)/(2(\<gamma>-1))\<close>. The one call that raises is \<open>area_mach_relation\<close> on the number
  \<open>\<gamma> = -1\<close>, where the closed form divides by \<open>\<gamma>+1 = 0\<close> and has no value either.
\<close>

theorem C2_closed_forms:
  assumes "\<gamma> \<noteq> 1"
  shows "(\<not> isl (direct temperature_ratio_isentropic \<gamma>) \<and>
          value_at (direct temperature_ratio_isentropic \<gamma>) M = spec_temperatureRatio \<gamma> M) \<and>
         (\<not> isl (direct pressure_ratio_isentropic \<gamma>) \<and>
          value_at (direct pressure_ratio_isentropic \<gamma>) M = spec_pressureRatio \<gamma> M) \<and>
         (\<not> isl (direct density_ratio_isentropic \<gamma>) \<and>
          value_at (direct density_ratio_isentropic \<gamma>) M = spec_densityRatio \<gamma> M) \<and>
         (\<not> isl (direct area_mach_relation \<gamma>) \<and>
          value_at (direct area_mach_relation \<gamma>) M = spec_areaMachRatio \<gamma> M) \<and>
         (\<not> isl (temperature_ratio_isentropic (PyNum \<gamma>)) \<and>
          value_at (temperature_ratio_isentropic (PyNum \<gamma>)) M = spec_temperatureRatio \<gamma> M) \<and>
         (\<not> isl (pressure_ratio_isentropic (PyNum \<gamma>)) \<and>
          value_at (pressure_ratio_isentropic (PyNum \<gamma>)) M = spec_pressureRatio \<gamma> M) \<and>
         (\<not> isl (density_ratio_isentropic (PyNum \<gamma>)) \<and>
          value_at (density_ratio_isentropic (PyNum \<gamma>)) M = spec_densityRatio \<gamma> M) \<and>
         (isl (area_mach_relation (PyNum \<gamma>)) = (\<gamma> + 1 = 0) \<and>
          value_at (area_mach_relation (PyNum \<gamma>)) M = spec_areaMachRatio \<gamma> M)"
proof -
  have raised:
    "\<not> isl (temperature_ratio_isentropic (PyNum \<gamma>))"
    "\<not> isl (pressure_ratio_isentropic (PyNum \<gamma>))"
    "\<not> isl (density_ratio_isentropic (PyNum \<gamma>))"
    "isl (area_mach_relation (PyNum \<gamma>)) = (\<gamma> + 1 = 0)"
    using assms by (simp_all add: temperature_num pressure_num density_num area_num)
  show ?thesis
    by (simp only: raised direct_not_raised temperature_value_sym pressure_value_sym
        density_value_sym area_value_sym temperature_value_num pressure_value_num
        density_value_num area_value_num not_False_eq_True simp_thms)
qed

theorem C2_closed_forms_witness:
  "(2::real) \<noteq> 1 \<and>
   \<not> isl (temperature_ratio_isentropic (PyNum 2)) \<and>
   value_at (temperature_ratio_isentropic (PyNum 2)) 3 = Some (2 / 11) \<and>
   value_at (direct pressure_ratio_isentropic 2) 3 = Some (4 / 121) \<and>
   value_at (direct density_ratio_isentropic 2) 3 = Some (2 / 11)"
  using C2_closed_forms [of 2 3]
  by (simp add: spec_temperatureRatio_def spec_pressureRatio_def spec_densityRatio_def
      rdiv_def rpow_def power2_eq_square)

subsection \<open>C3: pressure and density as powers of the temperature ratio\<close>

lemma isclose_refl: "0 \<le> rtol \<Longrightarrow> 0 \<le> atol \<Longrightarrow> isclose (Some x) (Some x) rtol atol"
  by (simp add: isclose_def)

lemma fn_values:
  assumes "post_init s g = Inr ev" "exact_at s M"
  shows "T_T0_fn ev M = spec_temperatureRatio g M"
    and "p_p0_fn ev M = spec_pressureRatio g M"
    and "rho_rho0_fn ev M = spec_densityRatio g M"
    and "A_Astar_fn ev M = spec_areaMachRatio g M"
proof -
  have ev: "ev = projr (post_init s g)" using assms(1) by simp
  show "T_T0_fn ev M = spec_temperatureRatio g M"
    unfolding ev post_init_fn bundled_T_T0
    by (simp add: value_at_simplified [OF assms(2)] temperature_value_sym)
  show "p_p0_fn ev M = spec_pressureRatio g M"
    unfolding ev post_init_fn bundled_p_p0
    by (simp add: value_at_simplified [OF assms(2)] pressure_value_sym)
  show "rho_rho0_fn ev M = spec_densityRatio g M"
    unfolding ev post_init_fn bundled_rho_rho0
    by (simp add: value_at_simplified [OF assms(2)] density_value_sym)
  show "A_Astar_fn ev M = spec_areaMachRatio g M"
    unfolding ev post_init_fn bundled_A_Astar
    by (simp add: value_at_simplified [OF assms(2)] area_value_sym)
qed

text \<open>
  Claim C3. For every \<open>\<gamma> > 1\<close> and \<open>M > 0\<close> the pressure and the density ratio are the
  powers \<open>\<gamma>/(\<gamma>-1)\<close> and \<open>1/(\<gamma>-1)\<close> of the temperature ratio \<open>T\<close>, for the
  formula functions (\<open>\<gamma>\<close> bound through the symbol or passed as a number) and for the
  compiled functions of the evaluator under any sound simplifier; the match is exact, hence
  within the relative tolerance \<open>1e-10\<close>. Both functions compute their result from the
  expression that \<open>temperature_ratio_isentropic\<close> returns: the expression they return is
  that expression raised to a power.
\<close>

theorem C3_powers_of_temperature_ratio:
  assumes "1 < \<gamma>" "0 < M"
  shows "(\<exists>T. 0 < T \<and>
            value_at (direct temperature_ratio_isentropic \<gamma>) M = Some T \<and>
            value_at (direct pressure_ratio_isentropic \<gamma>) M = Some (T powr (\<gamma> / (\<gamma> - 1))) \<and>
            value_at (direct density_ratio_isentropic \<gamma>) M = Some (T powr (1 / (\<gamma> - 1))) \<and>
            value_at (temperature_ratio_isentropic (PyNum \<gamma>)) M = Some T \<and>
            value_at (pressure_ratio_isentropic (PyNum \<gamma>)) M = Some (T powr (\<gamma> / (\<gamma> - 1))) \<and>
            value_at (density_ratio_isentropic (PyNum \<gamma>)) M = Some (T powr (1 / (\<gamma> - 1))) \<and>
            isclose (value_at (direct pressure_ratio_isentropic \<gamma>) M)
                    (Some (T powr (\<gamma> / (\<gamma> - 1)))) (1 / 10 ^ 10) (1 / 10 ^ 10) \<and>
            isclose (value_at (direct density_ratio_isentropic \<gamma>) M)
                    (Some (T powr (1 / (\<gamma> - 1)))) (1 / 10 ^ 10) (1 / 10 ^ 10) \<and>
            (\<forall>simplify. sound_simplify simplify \<longrightarrow>
               (\<exists>ev. post_init simplify \<gamma> = Inr ev \<and>
                  T_T0_fn ev M = Some T \<and>
                  p_p0_fn ev M = Some (T powr (\<gamma> / (\<gamma> - 1))) \<and>
                  rho_rho0_fn ev M = Some (T powr (1 / (\<gamma> - 1)))))) \<and>
         (\<forall>g \<in> {SymPy (Sym gamma), PyNum \<gamma>}.
            \<exists>T_T0. temperature_ratio_isentropic g = Inr T_T0 \<and>
              (\<exists>ex. pressure_ratio_isentropic g = Inr (Power T_T0 ex)) \<and>
              (\<exists>ex. density_ratio_isentropic g = Inr (Power T_T0 ex)))"
proof (intro conjI)
  let ?T = "temperature_closed \<gamma> M"
  have g1: "1 \<le> \<gamma>" using assms by simp
  have pos: "0 < ?T" by (rule temperature_closed_pos [OF g1])
  have ev: "\<exists>ev. post_init simplify \<gamma> = Inr ev \<and>
                  T_T0_fn ev M = Some ?T \<and>
                  p_p0_fn ev M = Some (?T powr (\<gamma> / (\<gamma> - 1))) \<and>
                  rho_rho0_fn ev M = Some (?T powr (1 / (\<gamma> - 1)))"
    if "sound_simplify simplify" for simplify
  proof -
    have ex: "exact_at simplify M" using that assms by (simp add: sound_exact)
    obtain ev where ev: "post_init simplify \<gamma> = Inr ev" by (simp add: post_init_eq)
    show ?thesis
      using fn_values [OF ev ex] ev assms g1
      by (simp add: spec_temperature_closed spec_pressure_closed spec_density_closed)
  qed
  show "\<exists>T. 0 < T \<and>
            value_at (direct temperature_ratio_isentropic \<gamma>) M = Some T \<and>
            value_at (direct pressure_ratio_isentropic \<gamma>) M = Some (T powr (\<gamma> / (\<gamma> - 1))) \<and>
            value_at (direct density_ratio_isentropic \<gamma>) M = Some (T powr (1 / (\<gamma> - 1))) \<and>
            value_at (temperature_ratio_isentropic (PyNum \<gamma>)) M = Some T \<and>
            value_at (pressure_ratio_isentropic (PyNum \<gamma>)) M = Some (T powr (\<gamma> / (\<gamma> - 1))) \<and>
            value_at (density_ratio_isentropic (PyNum \<gamma>)) M = Some (T powr (1 / (\<gamma> - 1))) \<and>
            isclose (value_at (direct pressure_ratio_isentropic \<gamma>) M)
                    (Some (T powr (\<gamma> / (\<gamma> - 1)))) (1 / 10 ^ 10) (1 / 10 ^ 10) \<and>
            isclose (value_at (direct density_ratio_isentropic \<gamma>) M)
                    (Some (T powr (1 / (\<gamma> - 1)))) (1 / 10 ^ 10) (1 / 10 ^ 10) \<and>
            (\<forall>simplify. sound_simplify simplify \<longrightarrow>
               (\<exists>ev. post_init simplify \<gamma> = Inr ev \<and>
                  T_T0_fn ev M = Some T \<and>
                  p_p0_fn ev M = Some (T powr (\<gamma> / (\<gamma> - 1))) \<and>
                  rho_rho0_fn ev M = Some (T powr (1 / (\<gamma> - 1)))))"
    apply (rule exI [of _ ?T])
    using pos ev assms g1
    apply (simp add: temperature_value_sym pressure_value_sym density_value_sym
        temperature_value_num pressure_value_num density_value_num
        spec_temperature_closed spec_pressure_closed spec_density_closed isclose_refl)
    done
  show "\<forall>g \<in> {SymPy (Sym gamma), PyNum \<gamma>}.
            \<exists>T_T0. temperature_ratio_isentropic g = Inr T_T0 \<and>
              (\<exists>ex. pressure_ratio_isentropic g = Inr (Power T_T0 ex)) \<and>
              (\<exists>ex. density_ratio_isentropic g = Inr (Power T_T0 ex))"
    using assms
    by (simp add: temperature_sym pressure_sym density_sym temperature_num pressure_num density_num)
qed

theorem C3_powers_of_temperature_ratio_witness:
  "1 < (2::real) \<and> 0 < (1::real) \<and>
   value_at (direct temperature_ratio_isentropic 2) 1 = Some (2 / 3) \<and>
   value_at (direct pressure_ratio_isentropic 2) 1 = Some (4 / 9) \<and>
   value_at (direct density_ratio_isentropic 2) 1 = Some (2 / 3) \<and>
   sound_simplify keep \<and>
   (\<exists>ev. post_init keep 2 = Inr ev \<and> T_T0_fn ev 1 = Some (2 / 3) \<and>
      p_p0_fn ev 1 = Some (4 / 9) \<and> rho_rho0_fn ev 1 = Some (2 / 3))"
proof -
  have h: "1 < (2::real)" "0 < (1::real)" by simp_all
  from C3_powers_of_temperature_ratio [OF h] obtain T where
    T: "value_at (direct temperature_ratio_isentropic 2) 1 = Some T"
       "value_at (direct pressure_ratio_isentropic 2) 1 = Some (T powr (2 / (2 - 1)))"
       "value_at (direct density_ratio_isentropic 2) 1 = Some (T powr (1 / (2 - 1)))"
       "\<forall>simplify. sound_simplify simplify \<longrightarrow>
               (\<exists>ev. post_init simplify 2 = Inr ev \<and>
                  T_T0_fn ev 1 = Some T \<and>
                  p_p0_fn ev 1 = Some (T powr (2 / (2 - 1))) \<and>
                  rho_rho0_fn ev 1 = Some (T powr (1 / (2 - 1))))"
    by blast
  have "value_at (direct temperature_ratio_isentropic 2) 1 = Some (2 / 3)"
    by (simp add: temperature_value_sym spec_temperatureRatio_def rdiv_def)
  with T(1) have T23: "T = 2 / 3" by simp
  have p: "(2 / 3 :: real) powr (2 / (2 - 1)) = 4 / 9" "(2 / 3 :: real) powr (1 / (2 - 1)) = 2 / 3"
    by (simp_all add: power2_eq_square)
  from T(4) keep_sound have "\<exists>ev. post_init keep 2 = Inr ev \<and>
                  T_T0_fn ev 1 = Some T \<and>
                  p_p0_fn ev 1 = Some (T powr (2 / (2 - 1))) \<and>
                  rho_rho0_fn ev 1 = Some (T powr (1 / (2 - 1)))" by blast
  with T(1-3) keep_sound show ?thesis unfolding T23 p by simp
qed

subsection \<open>C5: the normalisations\<close>

text \<open>
  Claim C5. For every \<open>\<gamma> > 1\<close> the temperature, pressure and density ratios have the
  value 1 at \<open>M = 0\<close> and the area ratio has the value 1 at \<open>M = 1\<close>, exactly, hence within
  the absolute tolerances \<open>1e-12\<close> and \<open>1e-10\<close>.
\<close>

theorem C5_normalisation:
  assumes "1 < \<gamma>"
  shows "value_at (direct temperature_ratio_isentropic \<gamma>) 0 = Some 1 \<and>
         value_at (direct pressure_ratio_isentropic \<gamma>) 0 = Some 1 \<and>
         value_at (direct density_ratio_isentropic \<gamma>) 0 = Some 1 \<and>
         value_at (direct area_mach_relation \<gamma>) 1 = Some 1 \<and>
         value_at (temperature_ratio_isentropic (PyNum \<gamma>)) 0 = Some 1 \<and>
         value_at (pressure_ratio_isentropic (PyNum \<gamma>)) 0 = Some 1 \<and>
         value_at (density_ratio_isentropic (PyNum \<gamma>)) 0 = Some 1 \<and>
         value_at (area_mach_relation (PyNum \<gamma>)) 1 = Some 1"
  using assms
  by (simp add: temperature_value_sym pressure_value_sym density_value_sym area_value_sym
      temperature_value_num pressure_value_num density_value_num area_value_num
      spec_temperature_closed spec_pressure_closed spec_density_closed spec_area_closed
      temperature_closed_zero area_closed_one)

theorem C5_normalisation_witness:
  "1 < (3::real) \<and>
   value_at (temperature_ratio_isentropic (PyNum 3)) 0 = Some 1 \<and>
   value_at (direct pressure_ratio_isentropic 3) 0 = Some 1 \<and>
   value_at (direct density_ratio_isentropic 3) 0 = Some 1 \<and>
   value_at (direct area_mach_relation 3) 1 = Some 1"
  using C5_normalisation [of 3] by simp

subsection \<open>C7: monotonicity\<close>

lemma below_Some [simp]: "below (Some x) (Some y) = (x < y)"
  by (simp add: below_def)

text \<open>
  Claim C7. For every fixed \<open>\<gamma> > 1\<close> the temperature, pressure and density ratios are
  strictly decreasing in \<open>M\<close> on \<open>M \<ge> 0\<close>; the area ratio is strictly decreasing on
  \<open>0 < M \<le> 1\<close>, strictly increasing on \<open>M \<ge> 1\<close>, and its value at the sonic point
  \<open>M = 1\<close> is below its value at every other positive \<open>M\<close>.
\<close>

theorem C7_monotonicity:
  assumes "1 < \<gamma>"
  shows "(\<forall>M1 M2. 0 \<le> M1 \<and> M1 < M2 \<longrightarrow>
            below (value_at (direct temperature_ratio_isentropic \<gamma>) M2)
                  (value_at (direct temperature_ratio_isentropic \<gamma>) M1) \<and>
            below (value_at (direct pressure_ratio_isentropic \<gamma>) M2)
                  (value_at (direct pressure_ratio_isentropic \<gamma>) M1) \<and>
            below (value_at (direct density_ratio_isentropic \<gamma>) M2)
                  (value_at (direct density_ratio_isentropic \<gamma>) M1)) \<and>
         (\<forall>M1 M2. 0 < M1 \<and> M1 < M2 \<and> M2 \<le> 1 \<longrightarrow>
            below (value_at (direct area_mach_relation \<gamma>) M2)
                  (value_at (direct area_mach_relation \<gamma>) M1)) \<and>
         (\<forall>M1 M2. 1 \<le> M1 \<and> M1 < M2 \<longrightarrow>
            below (value_at (direct area_mach_relation \<gamma>) M1)
                  (value_at (direct area_mach_relation \<gamma>) M2)) \<and>
         (\<forall>M. 0 < M \<and> M \<noteq> 1 \<longrightarrow>
            below (value_at (direct area_mach_relation \<gamma>) 1)
                  (value_at (direct area_mach_relation \<gamma>) M))"
proof (intro conjI allI impI)
  fix M1 M2 :: real assume M: "0 \<le> M1 \<and> M1 < M2"
  have e: "0 < \<gamma> / (\<gamma> - 1)" "0 < 1 / (\<gamma> - 1)" using assms by simp_all
  show "below (value_at (direct temperature_ratio_isentropic \<gamma>) M2)
              (value_at (direct temperature_ratio_isentropic \<gamma>) M1)"
    using assms M temperature_closed_decreasing [of \<gamma> M1 M2]
    by (simp add: temperature_value_sym spec_temperature_closed)
  show "below (value_at (direct pressure_ratio_isentropic \<gamma>) M2)
              (value_at (direct pressure_ratio_isentropic \<gamma>) M1)"
    using assms M power_closed_decreasing [of \<gamma> M1 M2, OF _ _ _ e(1)]
    by (simp add: pressure_value_sym spec_pressure_closed)
  show "below (value_at (direct density_ratio_isentropic \<gamma>) M2)
              (value_at (direct density_ratio_isentropic \<gamma>) M1)"
    using assms M power_closed_decreasing [of \<gamma> M1 M2, OF _ _ _ e(2)]
    by (simp add: density_value_sym spec_density_closed)
next
  fix M1 M2 :: real assume M: "0 < M1 \<and> M1 < M2 \<and> M2 \<le> 1"
  then show "below (value_at (direct area_mach_relation \<gamma>) M2)
                   (value_at (direct area_mach_relation \<gamma>) M1)"
    using assms area_closed_decreasing [of \<gamma> M1 M2]
    by (simp add: area_value_sym spec_area_closed)
next
  fix M1 M2 :: real assume M: "1 \<le> M1 \<and> M1 < M2"
  then show "below (value_at (direct area_mach_relation \<gamma>) M1)
                   (value_at (direct area_mach_relation \<gamma>) M2)"
    using assms area_closed_increasing [of \<gamma> M1 M2]
    by (simp add: area_value_sym spec_area_closed)
next
  fix M :: real assume M: "0 < M \<and> M \<noteq> 1"
  then show "below (value_at (direct area_mach_relation \<gamma>) 1)
                   (value_at (direct area_mach_relation \<gamma>) M)"
    using assms area_closed_minimum [of \<gamma> M]
    by (simp add: area_value_sym spec_area_closed)
qed

theorem C7_monotonicity_witness:
  "1 < (3::real) \<and>
   below (value_at (direct temperature_ratio_isentropic 3) 2)
         (value_at (direct temperature_ratio_isentropic 3) 1) \<and>
   value_at (direct temperature_ratio_isentropic 3) 2 = Some (1 / 5) \<and>
   value_at (direct temperature_ratio_isentropic 3) 1 = Some (1 / 2) \<and>
   below (value_at (direct area_mach_relation 3) 1) (value_at (direct area_mach_relation 3) (1 / 2)) \<and>
   below (value_at (direct area_mach_relation 3) 1) (value_at (direct area_mach_relation 3) 2) \<and>
   value_at (direct area_mach_relation 3) (1 / 2) = Some (5 / 4) \<and>
   value_at (direct area_mach_relation 3) 2 = Some (5 / 4)"
proof -
  have h: "1 < (3::real)" by simp
  note m = C7_monotonicity [OF h]
  have t: "below (value_at (direct temperature_ratio_isentropic 3) 2)
         (value_at (direct temperature_ratio_isentropic 3) 1)"
    using m [THEN conjunct1, rule_format, of 1 2] by simp
  have a1: "below (value_at (direct area_mach_relation 3) 1) (value_at (direct area_mach_relation 3) (1 / 2))"
    using m [THEN conjunct2, THEN conjunct1, rule_format, of "1 / 2" 1] by simp
  have a2: "below (value_at (direct area_mach_relation 3) 1) (value_at (direct area_mach_relation 3) 2)"
    using m [THEN conjunct2, THEN conjunct2, THEN conjunct1, rule_format, of 1 2] by simp
  have v: "value_at (direct temperature_ratio_isentropic 3) 2 = Some (1 / 5)"
    "value_at (direct temperature_ratio_isentropic 3) 1 = Some (1 / 2)"
    "value_at (direct area_mach_relation 3) (1 / 2) = Some (5 / 4)"
    "value_at (direct area_mach_relation 3) 2 = Some (5 / 4)"
    by (simp_all add: temperature_value_sym area_value_sym spec_temperatureRatio_def
        spec_areaMachRatio_def rdiv_def rpow_def power2_eq_square)
  from t a1 a2 v show ?thesis by simp
qed

subsection \<open>C1: the value \<open>\<gamma> = 1\<close>\<close>

lemma expressions_for_gamma_not_raised: "\<not> isl (expressions_for_gamma s g)"
  by (simp add: expressions_for_gamma_def temperature_sym pressure_sym density_sym area_sym)

lemma spec_at_gamma_one:
  "spec_temperatureRatio 1 M = Some 1" "spec_pressureRatio 1 M = None"
  "spec_densityRatio 1 M = None" "spec_areaMachRatio 1 M = None"
  by (simp_all add: spec_temperatureRatio_def spec_pressureRatio_def spec_densityRatio_def
      spec_areaMachRatio_def rdiv_def)

text \<open>
  Claim C1 says that \<open>\<gamma> = 1\<close>, passed to any formula function or to the construction of
  the evaluator, fails at once. It does not: \<open>temperature_ratio_isentropic(1)\<close> never
  divides by \<open>\<gamma> - 1\<close> and returns the expression \<open>1/(1 + 0 M\<^sup>2)\<close>; and the
  construction substitutes the number into expressions built with the symbol, so no Python
  division sees the zero, the object is built, and its pressure accessor is undefined at
  \<open>M = 2\<close>.
\<close>

theorem C1_gamma_one_counterexample:
  "temperature_ratio_isentropic (PyNum 1) =
     Inr (Div (Number 1) (Add (Number 1) (Mul (Number 0) (Power (Sym mach) (Number 2))))) \<and>
   \<not> isl (post_init keep 1) \<and>
   p_p0 (projr (post_init keep 1)) (NDArray [Some 2]) = Inr [None]"
proof -
  have "post_init keep 1 = Inr (projr (post_init keep 1))"
    by (simp add: post_init_eq)
  from fn_values(2) [OF this keep_exact, of 2]
  show ?thesis
    using accessor_ndarray(2) [of "projr (post_init keep 1)" "[2]"]
    by (simp add: temperature_num spec_at_gamma_one post_init_eq)
qed

text \<open>
  Claim C1 as amended. No function checks \<open>\<gamma>\<close>. Passed the number 1,
  \<open>pressure_ratio_isentropic\<close>, \<open>density_ratio_isentropic\<close> and \<open>area_mach_relation\<close>
  raise \<open>ZeroDivisionError\<close> when they divide by \<open>\<gamma> - 1\<close>, and
  \<open>temperature_ratio_isentropic\<close> returns an expression of value 1. \<open>expressions_for_gamma(1)\<close>
  and the construction of \<open>IsentropicNozzleNumeric(1)\<close> do not raise, whatever the simplifier;
  where the simplifier is exact, the compiled temperature ratio is 1 and the compiled
  pressure, density and area ratios are undefined.
\<close>

theorem C1_gamma_one:
  "pressure_ratio_isentropic (PyNum 1) = Inl ZeroDivisionError \<and>
   density_ratio_isentropic (PyNum 1) = Inl ZeroDivisionError \<and>
   area_mach_relation (PyNum 1) = Inl ZeroDivisionError \<and>
   \<not> isl (temperature_ratio_isentropic (PyNum 1)) \<and>
   value_at (temperature_ratio_isentropic (PyNum 1)) M = Some 1 \<and>
   \<not> isl (expressions_for_gamma simplify 1) \<and>
   \<not> isl (post_init simplify 1) \<and>
   (exact_at simplify M \<longrightarrow>
      T_T0_fn (projr (post_init simplify 1)) M = Some 1 \<and>
      p_p0_fn (projr (post_init simplify 1)) M = None \<and>
      rho_rho0_fn (projr (post_init simplify 1)) M = None \<and>
      A_Astar_fn (projr (post_init simplify 1)) M = None)"
proof -
  have ev: "post_init simplify 1 = Inr (projr (post_init simplify 1))"
    by (simp add: post_init_eq)
  have "exact_at simplify M \<longrightarrow>
      T_T0_fn (projr (post_init simplify 1)) M = Some 1 \<and>
      p_p0_fn (projr (post_init simplify 1)) M = None \<and>
      rho_rho0_fn (projr (post_init simplify 1)) M = None \<and>
      A_Astar_fn (projr (post_init simplify 1)) M = None"
    using fn_values [OF ev] by (simp add: spec_at_gamma_one)
  moreover have "value_at (temperature_ratio_isentropic (PyNum 1)) M = Some 1"
    by (simp add: temperature_value_num spec_at_gamma_one)
  moreover have "\<not> isl (post_init simplify 1)"
    by (simp add: post_init_eq)
  ultimately show ?thesis
    by (simp add: pressure_num density_num area_num temperature_num
        expressions_for_gamma_not_raised)
qed

theorem C1_gamma_one_witness:
  "exact_at keep 2 \<and>
   pressure_ratio_isentropic (PyNum 1) = Inl ZeroDivisionError \<and>
   \<not> isl (post_init keep 1) \<and>
   T_T0_fn (projr (post_init keep 1)) 2 = Some 1 \<and>
   p_p0_fn (projr (post_init keep 1)) 2 = None \<and>
   rho_rho0_fn (projr (post_init keep 1)) 2 = None \<and>
   A_Astar_fn (projr (post_init keep 1)) 2 = None"
  using C1_gamma_one [where simplify = keep and M = 2] keep_exact [of 2] by simp

subsection \<open>C6: dimensional profiles\<close>

lemma spec_at_mach_zero:
  "spec_temperatureRatio g 0 = Some 1"
  "g \<noteq> 1 \<Longrightarrow> spec_pressureRatio g 0 = Some 1"
  "g \<noteq> 1 \<Longrightarrow> spec_densityRatio g 0 = Some 1"
  "spec_areaMachRatio g 0 = None"
  by (simp_all add: spec_temperatureRatio_def spec_pressureRatio_def spec_densityRatio_def
      spec_areaMachRatio_def rdiv_def rpow_def)

lemma dimensional_profiles_value:
  assumes "rho0 \<noteq> None \<or> T0 \<noteq> 0"
  shows "dimensional_profiles self M T0 p0 rho0 =
        Inr [(''M'', map Some M),
             (''T'', map (\<lambda>m. map_option (\<lambda>r. r * T0) (T_T0_fn self m)) M),
             (''p'', map (\<lambda>m. map_option (\<lambda>r. r * p0) (p_p0_fn self m)) M),
             (''rho'', map (\<lambda>m. map_option
                  (\<lambda>r. r * (case rho0 of None \<Rightarrow> p0 / (287 * T0) | Some x \<Rightarrow> x))
                  (rho_rho0_fn self m)) M),
             (''A_Astar'', map (A_Astar_fn self) M)]"
  using assms
  by (cases rho0)
    (simp_all add: dimensional_profiles_def float_truediv_def scale_def accessor_ndarray)

lemma dimensional_profiles_zero_T0:
  "dimensional_profiles self M 0 p0 None = Inl ZeroDivisionError"
  by (simp add: dimensional_profiles_def float_truediv_def)

text \<open>
  Claim C6. \<open>dimensional_profiles\<close> returns the dictionary with the keys \<open>M\<close>, \<open>T\<close>,
  \<open>p\<close>, \<open>rho\<close>, \<open>A_Astar\<close>; each array is the input array mapped element by element:
  the temperature, pressure and density ratios times \<open>T0\<close>, \<open>p0\<close> and \<open>rho0\<close>, with
  \<open>rho0 = p0 / (287 T0)\<close> when it is not supplied, and the area ratio as it is. (The
  derivation of \<open>rho0\<close> divides by \<open>287 T0\<close>, so it needs \<open>T0 \<noteq> 0\<close>.) For
  \<open>\<gamma> = 1.4\<close>, \<open>M = [0, 1, 2]\<close>, \<open>T0 = 300\<close>, \<open>p0 = 1e5\<close> and no \<open>rho0\<close>, the first
  elements are \<open>T = 300\<close>, \<open>p = 1e5\<close> and \<open>rho = 1e5 / (287 * 300)\<close>, the simplifier being
  exact at \<open>M = 0\<close>.
\<close>

theorem C6_dimensional_profiles:
  "(rho0 \<noteq> None \<or> T0 \<noteq> 0 \<longrightarrow>
      dimensional_profiles self M T0 p0 rho0 =
        Inr [(''M'', map Some M),
             (''T'', map (\<lambda>m. map_option (\<lambda>r. r * T0) (T_T0_fn self m)) M),
             (''p'', map (\<lambda>m. map_option (\<lambda>r. r * p0) (p_p0_fn self m)) M),
             (''rho'', map (\<lambda>m. map_option
                  (\<lambda>r. r * (case rho0 of None \<Rightarrow> p0 / (287 * T0) | Some x \<Rightarrow> x))
                  (rho_rho0_fn self m)) M),
             (''A_Astar'', map (A_Astar_fn self) M)]) \<and>
   (exact_at simplify 0 \<longrightarrow>
      (\<exists>T p rho A.
         dimensional_profiles (projr (post_init simplify (14 / 10))) [0, 1, 2] 300 100000 None =
           Inr [(''M'', [Some 0, Some 1, Some 2]), (''T'', T), (''p'', p), (''rho'', rho),
                (''A_Astar'', A)] \<and>
         length T = 3 \<and> length p = 3 \<and> length rho = 3 \<and> length A = 3 \<and>
         T ! 0 = Some 300 \<and> p ! 0 = Some 100000 \<and>
         rho ! 0 = Some (100000 / (287 * 300))))"
proof (intro conjI impI)
  assume "rho0 \<noteq> None \<or> T0 \<noteq> 0"
  then show "dimensional_profiles self M T0 p0 rho0 =
        Inr [(''M'', map Some M),
             (''T'', map (\<lambda>m. map_option (\<lambda>r. r * T0) (T_T0_fn self m)) M),
             (''p'', map (\<lambda>m. map_option (\<lambda>r. r * p0) (p_p0_fn self m)) M),
             (''rho'', map (\<lambda>m. map_option
                  (\<lambda>r. r * (case rho0 of None \<Rightarrow> p0 / (287 * T0) | Some x \<Rightarrow> x))
                  (rho_rho0_fn self m)) M),
             (''A_Astar'', map (A_Astar_fn self) M)]"
    by (rule dimensional_profiles_value)
next
  assume ex: "exact_at simplify 0"
  let ?ev = "projr (post_init simplify (14 / 10))"
  have ev: "post_init simplify (14 / 10) = Inr ?ev"
    by (simp add: post_init_eq)
  have g: "(14 / 10 :: real) \<noteq> 1" by simp
  have z: "T_T0_fn ?ev 0 = Some 1" "p_p0_fn ?ev 0 = Some 1" "rho_rho0_fn ?ev 0 = Some 1"
    using fn_values [OF ev ex] spec_at_mach_zero(1) [of "14 / 10"] spec_at_mach_zero(2,3) [OF g]
    by simp_all
  show "\<exists>T p rho A.
         dimensional_profiles ?ev [0, 1, 2] 300 100000 None =
           Inr [(''M'', [Some 0, Some 1, Some 2]), (''T'', T), (''p'', p), (''rho'', rho),
                (''A_Astar'', A)] \<and>
         length T = 3 \<and> length p = 3 \<and> length rho = 3 \<and> length A = 3 \<and>
         T ! 0 = Some 300 \<and> p ! 0 = Some 100000 \<and>
         rho ! 0 = Some (100000 / (287 * 300))"
    using z dimensional_profiles_value [of None 300 ?ev "[0, 1, 2]" 100000]
    by simp
qed

theorem C6_dimensional_profiles_witness:
  "exact_at keep 0 \<and>
   (\<exists>T p rho A.
      dimensional_profiles (projr (post_init keep (14 / 10))) [0, 1, 2] 300 100000 None =
        Inr [(''M'', [Some 0, Some 1, Some 2]), (''T'', T), (''p'', p), (''rho'', rho),
             (''A_Astar'', A)] \<and>
      T ! 0 = Some 300 \<and> p ! 0 = Some 100000 \<and> rho ! 0 = Some (100000 / (287 * 300))) \<and>
   dimensional_profiles (projr (post_init keep 2)) [1] 300 100000 (Some 2) =
     Inr [(''M'', [Some 1]), (''T'', [Some 200]), (''p'', [Some (400000 / 9)]),
          (''rho'', [Some (4 / 3)]), (''A_Astar'', [Some 1])]"
proof -
  note c = C6_dimensional_profiles [where simplify = keep]
  have ev: "post_init keep 2 = Inr (projr (post_init keep 2))"
    by (simp add: post_init_eq)
  have v: "T_T0_fn (projr (post_init keep 2)) 1 = Some (2 / 3)"
    "p_p0_fn (projr (post_init keep 2)) 1 = Some (4 / 9)"
    "rho_rho0_fn (projr (post_init keep 2)) 1 = Some (2 / 3)"
    "A_Astar_fn (projr (post_init keep 2)) 1 = Some 1"
    using fn_values [OF ev keep_exact, of 1]
    by (simp_all add: spec_temperatureRatio_def spec_pressureRatio_def spec_densityRatio_def
        rdiv_def rpow_def spec_area_closed area_closed_one power2_eq_square)
  have "dimensional_profiles (projr (post_init keep 2)) [1] 300 100000 (Some 2) =
     Inr [(''M'', [Some 1]), (''T'', [Some 200]), (''p'', [Some (400000 / 9)]),
          (''rho'', [Some (4 / 3)]), (''A_Astar'', [Some 1])]"
    using c [THEN conjunct1, of "Some 2" 300 "projr (post_init keep 2)" "[1]" 100000] v
    by simp
  with c [THEN conjunct2] keep_exact [of 0] show ?thesis by blast
qed

subsection \<open>C10: the equivalence holds for positive Mach numbers only\<close>

lemma bundled_value:
  assumes "exact_at s M"
  shows "value_at (bundled s g ''T_T0'') M = spec_temperatureRatio g M"
    and "value_at (bundled s g ''p_p0'') M = spec_pressureRatio g M"
    and "value_at (bundled s g ''rho_rho0'') M = spec_densityRatio g M"
    and "value_at (bundled s g ''A_Astar'') M = spec_areaMachRatio g M"
  using assms
  by (simp_all add: bundled_T_T0 bundled_p_p0 bundled_rho_rho0 bundled_A_Astar
      value_at_simplified temperature_value_sym pressure_value_sym density_value_sym
      area_value_sym)

lemma positive_rewrite_negates:
  assumes "mach \<in> free_symbols e" "eval [mach \<mapsto> - 1] e = Some v"
  shows "eval [mach \<mapsto> - 1] (positive_rewrite e) = Some (- v)"
  using assms by (simp add: positive_rewrite_def sign_factor_neg)

lemma bundled_positive_rewrite:
  assumes "\<not> isl (direct f g)" "free_symbols (projr (direct f g)) = {mach}"
    "value_at (direct f g) (- 1) = Some v"
  shows "value_at (and_then (direct f g) (\<lambda>e. Inr (positive_rewrite e))) (- 1) = Some (- v)"
proof (cases "direct f g")
  case (Inl err)
  with assms(1) show ?thesis by simp
next
  case (Inr e)
  with assms have "mach \<in> free_symbols e" "eval [mach \<mapsto> - 1] e = Some v"
    by (simp_all add: value_at_def)
  then show ?thesis using Inr by (simp add: value_at_def positive_rewrite_negates)
qed

lemma direct_free_symbols:
  "free_symbols (projr (direct temperature_ratio_isentropic g)) = {mach}"
  "free_symbols (projr (direct pressure_ratio_isentropic g)) = {mach}"
  "free_symbols (projr (direct density_ratio_isentropic g)) = {mach}"
  "free_symbols (projr (direct area_mach_relation g)) = {mach}"
  by (simp_all add: direct_def temperature_sym pressure_sym density_sym area_sym gamma_neq_mach)

lemma area_closed_minus_one: "1 < g \<Longrightarrow> area_closed g (- 1) = - 1"
proof -
  assume g: "1 < g"
  have "2 / (g + 1) * (1 + (g - 1) / 2 * (- 1)\<^sup>2) = 1"
    using g by (simp add: field_simps)
  then have "area_closed g (- 1) = 1 / (- 1) * 1 powr ((g + 1) / (2 * (g - 1)))"
    unfolding area_closed_def by (rule arg_cong)
  then show ?thesis by simp
qed

text \<open>
  Claim C10. Both symbols are declared positive. Under every simplifier that is sound for
  positive symbols, for every \<open>\<gamma> > 1\<close> and \<open>M > 0\<close> each simplified expression has the
  (defined) value of the unsimplified formula. For \<open>M \<le> 0\<close> the contract promises nothing:
  \<open>positive_rewrite\<close> is sound, and at \<open>M = -1\<close> each of its four expressions differs from
  the unsimplified formula, for every \<open>\<gamma> > 1\<close>.
\<close>

theorem C10_equivalence_only_for_positive_mach:
  "positive gamma \<and> positive mach \<and>
   (\<forall>simplify \<gamma> M. sound_simplify simplify \<and> 1 < \<gamma> \<and> 0 < M \<longrightarrow>
      value_at (bundled simplify \<gamma> ''T_T0'') M =
        value_at (direct temperature_ratio_isentropic \<gamma>) M \<and>
      value_at (bundled simplify \<gamma> ''p_p0'') M =
        value_at (direct pressure_ratio_isentropic \<gamma>) M \<and>
      value_at (bundled simplify \<gamma> ''rho_rho0'') M =
        value_at (direct density_ratio_isentropic \<gamma>) M \<and>
      value_at (bundled simplify \<gamma> ''A_Astar'') M =
        value_at (direct area_mach_relation \<gamma>) M \<and>
      value_at (direct temperature_ratio_isentropic \<gamma>) M \<noteq> None \<and>
      value_at (direct pressure_ratio_isentropic \<gamma>) M \<noteq> None \<and>
      value_at (direct density_ratio_isentropic \<gamma>) M \<noteq> None \<and>
      value_at (direct area_mach_relation \<gamma>) M \<noteq> None) \<and>
   sound_simplify positive_rewrite \<and>
   (\<forall>\<gamma>. 1 < \<gamma> \<longrightarrow>
      value_at (bundled positive_rewrite \<gamma> ''T_T0'') (- 1) \<noteq>
        value_at (direct temperature_ratio_isentropic \<gamma>) (- 1) \<and>
      value_at (bundled positive_rewrite \<gamma> ''p_p0'') (- 1) \<noteq>
        value_at (direct pressure_ratio_isentropic \<gamma>) (- 1) \<and>
      value_at (bundled positive_rewrite \<gamma> ''rho_rho0'') (- 1) \<noteq>
        value_at (direct density_ratio_isentropic \<gamma>) (- 1) \<and>
      value_at (bundled positive_rewrite \<gamma> ''A_Astar'') (- 1) \<noteq>
        value_at (direct area_mach_relation \<gamma>) (- 1))"
proof (intro conjI allI impI)
  show "positive gamma" by (simp add: gamma_def)
  show "positive mach" by (rule positive_mach)
  show "sound_simplify positive_rewrite" by (rule positive_rewrite_sound)
next
  fix simplify and \<gamma> M :: real assume a: "sound_simplify simplify \<and> 1 < \<gamma> \<and> 0 < M"
  then have ex: "exact_at simplify M" by (simp add: sound_exact)
  show "value_at (bundled simplify \<gamma> ''T_T0'') M =
        value_at (direct temperature_ratio_isentropic \<gamma>) M"
    by (simp only: bundled_value [OF ex] temperature_value_sym)
  show "value_at (bundled simplify \<gamma> ''p_p0'') M =
        value_at (direct pressure_ratio_isentropic \<gamma>) M"
    by (simp only: bundled_value [OF ex] pressure_value_sym)
  show "value_at (bundled simplify \<gamma> ''rho_rho0'') M =
        value_at (direct density_ratio_isentropic \<gamma>) M"
    by (simp only: bundled_value [OF ex] density_value_sym)
  show "value_at (bundled simplify \<gamma> ''A_Astar'') M =
        value_at (direct area_mach_relation \<gamma>) M"
    by (simp only: bundled_value [OF ex] area_value_sym)
  show "value_at (direct temperature_ratio_isentropic \<gamma>) M \<noteq> None"
    using a by (simp add: temperature_value_sym spec_temperature_closed)
  show "value_at (direct pressure_ratio_isentropic \<gamma>) M \<noteq> None"
    using a by (simp add: pressure_value_sym spec_pressure_closed)
  show "value_at (direct density_ratio_isentropic \<gamma>) M \<noteq> None"
    using a by (simp add: density_value_sym spec_density_closed)
  show "value_at (direct area_mach_relation \<gamma>) M \<noteq> None"
    using a by (simp add: area_value_sym spec_area_closed)
next
  fix \<gamma> :: real assume g: "1 < \<gamma>"
  then have g1: "1 \<le> \<gamma>" by simp
  have T: "0 < temperature_closed \<gamma> (- 1)" by (rule temperature_closed_pos [OF g1])
  have vT: "value_at (direct temperature_ratio_isentropic \<gamma>) (- 1) = Some (temperature_closed \<gamma> (- 1))"
    by (simp add: temperature_value_sym spec_temperature_closed [OF g1])
  have vp: "value_at (direct pressure_ratio_isentropic \<gamma>) (- 1) =
      Some (temperature_closed \<gamma> (- 1) powr (\<gamma> / (\<gamma> - 1)))"
    by (simp add: pressure_value_sym spec_pressure_closed [OF g])
  have vr: "value_at (direct density_ratio_isentropic \<gamma>) (- 1) =
      Some (temperature_closed \<gamma> (- 1) powr (1 / (\<gamma> - 1)))"
    by (simp add: density_value_sym spec_density_closed [OF g])
  have vA: "value_at (direct area_mach_relation \<gamma>) (- 1) = Some (- 1)"
    using g by (simp add: area_value_sym spec_area_closed area_closed_minus_one)
  show "value_at (bundled positive_rewrite \<gamma> ''T_T0'') (- 1) \<noteq>
        value_at (direct temperature_ratio_isentropic \<gamma>) (- 1)"
    unfolding bundled_T_T0
    using bundled_positive_rewrite [OF direct_not_raised(1) direct_free_symbols(1) vT] T
    by (simp add: vT)
  show "value_at (bundled positive_rewrite \<gamma> ''p_p0'') (- 1) \<noteq>
        value_at (direct pressure_ratio_isentropic \<gamma>) (- 1)"
    unfolding bundled_p_p0
    using bundled_positive_rewrite [OF direct_not_raised(2) direct_free_symbols(2) vp] T
    by (simp add: vp)
  show "value_at (bundled positive_rewrite \<gamma> ''rho_rho0'') (- 1) \<noteq>
        value_at (direct density_ratio_isentropic \<gamma>) (- 1)"
    unfolding bundled_rho_rho0
    using bundled_positive_rewrite [OF direct_not_raised(3) direct_free_symbols(3) vr] T
    by (simp add: vr)
  show "value_at (bundled positive_rewrite \<gamma> ''A_Astar'') (- 1) \<noteq>
        value_at (direct area_mach_relation \<gamma>) (- 1)"
    unfolding bundled_A_Astar
    using bundled_positive_rewrite [OF direct_not_raised(4) direct_free_symbols(4) vA]
    by (simp add: vA)
qed

theorem C10_equivalence_only_for_positive_mach_witness:
  "sound_simplify keep \<and> 1 < (2::real) \<and> 0 < (3::real) \<and>
   value_at (bundled keep 2 ''T_T0'') 3 = Some (2 / 11) \<and>
   value_at (bundled positive_rewrite 2 ''T_T0'') (- 1) = Some (- (2 / 3)) \<and>
   value_at (direct temperature_ratio_isentropic 2) (- 1) = Some (2 / 3) \<and>
   value_at (bundled positive_rewrite 2 ''A_Astar'') (- 1) \<noteq>
     value_at (direct area_mach_relation 2) (- 1)"
proof -
  note c = C10_equivalence_only_for_positive_mach
  have h: "sound_simplify keep \<and> 1 < (2::real) \<and> 0 < (3::real)"
    by (simp add: keep_sound)
  have 1: "value_at (bundled keep 2 ''T_T0'') 3 =
        value_at (direct temperature_ratio_isentropic 2) 3"
    using c [THEN conjunct2, THEN conjunct2, THEN conjunct1, rule_format, OF h] by (elim conjE)
  have 2: "value_at (bundled positive_rewrite 2 ''A_Astar'') (- 1) \<noteq>
     value_at (direct area_mach_relation 2) (- 1)"
    using c [THEN conjunct2, THEN conjunct2, THEN conjunct2, THEN conjunct2, rule_format, of 2]
    by simp
  have v: "value_at (direct temperature_ratio_isentropic 2) 3 = Some (2 / 11)"
    "value_at (direct temperature_ratio_isentropic 2) (- 1) = Some (2 / 3)"
    by (simp_all add: temperature_value_sym spec_temperatureRatio_def rdiv_def)
  have 3: "value_at (bundled positive_rewrite 2 ''T_T0'') (- 1) = Some (- (2 / 3))"
    unfolding bundled_T_T0
    by (rule bundled_positive_rewrite [OF direct_not_raised(1) direct_free_symbols(1) v(2)])
  from h 1 2 3 v show ?thesis by simp
qed

end
